theory Spec2Isabelle
  imports
    Complex_Main
    "HOL-Library.Sublist"
    "HOL-Library.List_Lexorder"
begin

section \<open>Text\<close>

text \<open>
  A Python \<open>str\<close> is a sequence of Unicode code points, and so is every text value of
  the model: names, emails, form fields, environment variables, messages. \<open>text_of\<close>
  embeds the ASCII literals of the source.
\<close>

type_synonym str = "int list"

definition text_of :: "char list \<Rightarrow> str" where
  "text_of s = map of_char s"

text \<open>
  \<open>str.strip()\<close> removes leading and trailing white space, which for a \<open>str\<close> is the
  set of code points below (the ASCII controls and the space, NEL, the no-break space and
  the Unicode space separators up to the ideographic space U+3000).
\<close>

definition is_space :: "int \<Rightarrow> bool" where
  "is_space c =
     ((0x09 \<le> c \<and> c \<le> 0x0D) \<or> (0x1C \<le> c \<and> c \<le> 0x20) \<or> c = 0x85 \<or> c = 0xA0
      \<or> c = 0x1680 \<or> (0x2000 \<le> c \<and> c \<le> 0x200A) \<or> c = 0x2028 \<or> c = 0x2029
      \<or> c = 0x202F \<or> c = 0x205F \<or> c = 0x3000)"

definition strip :: "str \<Rightarrow> str" where
  "strip s = rev (dropWhile is_space (rev (dropWhile is_space s)))"

section \<open>The persistence schema (app.py, lines 90-110)\<close>

text \<open>
  The three SQLAlchemy models become records and each table a list of rows in insertion
  order. Primary keys are Python integers, timestamps and calendar dates are day or
  instant numbers.
\<close>

record student =
  s_id :: int
  s_name :: str
  s_email :: "str option"
  s_active :: bool
  s_last_notified_at :: "nat option"

record class_session =
  cs_id :: int
  class_date :: nat

record attendance =
  a_id :: int
  a_student_id :: int
  a_session_id :: int
  a_present :: bool
  a_timestamp :: nat

record database =
  students :: "student list"
  sessions :: "class_session list"
  attendances :: "attendance list"

section \<open>The ratio calculator (app.py, lines 77 and 157-166)\<close>

text \<open>
  Python's \<open>present_count / total_sessions\<close> is the correctly rounded double of the exact
  quotient. The model keeps the exact quotient as a rational. Against the representable
  constant 0.5 the comparison of the double agrees with the comparison of the exact
  quotient as long as the session count stays below \<open>2^53\<close>.
\<close>

definition DANGER_THRESHOLD :: rat where
  "DANGER_THRESHOLD = 1 / 2"

definition total_sessions :: "database \<Rightarrow> nat" where
  "total_sessions d = length (sessions d)"

definition present_count :: "database \<Rightarrow> int \<Rightarrow> nat" where
  "present_count d sid =
     length (filter (\<lambda>a. a_student_id a = sid \<and> a_present a) (attendances d))"

definition attendance_ratio :: "database \<Rightarrow> int \<Rightarrow> rat" where
  "attendance_ratio d sid =
     (if total_sessions d = 0 then 1
      else of_nat (present_count d sid) / of_nat (total_sessions d))"

text \<open>
  The attendance uniqueness invariant of the schema: the constraint \<open>uniq_attendance\<close> on
  (student_id, session_id), and the foreign key of \<open>session_id\<close> into the session table.
\<close>

definition attendance_unique :: "database \<Rightarrow> bool" where
  "attendance_unique d =
     distinct (map (\<lambda>a. (a_student_id a, a_session_id a)) (attendances d))"

definition attendance_sessions_exist :: "database \<Rightarrow> bool" where
  "attendance_sessions_exist d =
     list_all (\<lambda>a. a_session_id a \<in> set (map cs_id (sessions d))) (attendances d)"

section \<open>Configuration, effects and errors\<close>

text \<open>
  \<open>environ\<close> holds what a request reads from outside the database: the environment
  variables, the clock, whether the database engine enforces foreign keys (SQLite does not
  unless asked to, PostgreSQL does), and whether the SMTP exchange for a message goes
  through. \<open>smtp_port\<close> is the value of \<open>int(os.getenv('SMTP_PORT','587'))\<close>, with
  \<open>None\<close> when \<open>int\<close> raises. \<open>strptime_ymd\<close> and \<open>isoformat\<close> are the standard
  library's date parser for \<open>%Y-%m-%d\<close> (\<open>None\<close> when it raises) and date printer.

  The name lookup of the check-in compares two different lower-casings: \<open>sql_lower\<close> is
  the database engine's \<open>lower()\<close>, applied to the stored name (SQLite folds the letters A
  to Z only, PostgreSQL follows the database locale), and \<open>py_lower\<close> is Python's
  \<open>str.lower()\<close>, applied to the submitted name (it folds every cased Unicode letter).
  Both are parameters of the model.
\<close>

record email_message =
  msg_subject :: str
  msg_from :: str
  msg_to :: str
  msg_body :: str

record environ =
  admin_code :: "str option"
  smtp_host :: "str option"
  smtp_port :: "int option"
  smtp_username :: "str option"
  smtp_password :: "str option"
  from_email_var :: "str option"
  smtp_accepts :: "email_message \<Rightarrow> bool"
  fk_enforced :: bool
  utcnow :: nat
  today :: nat
  strptime_ymd :: "str \<Rightarrow> nat option"
  isoformat :: "nat \<Rightarrow> str"
  sql_lower :: "str \<Rightarrow> str"
  py_lower :: "str \<Rightarrow> str"

datatype effect =
    Committed database
  | Printed str
  | SmtpSession email_message bool

record world =
  db :: database
  trace :: "effect list"

datatype error = NotFound | IntegrityError | SMTPException | ValueError | TypeError

definition commit :: "database \<Rightarrow> world \<Rightarrow> world" where
  "commit d w = w\<lparr>db := d, trace := trace w @ [Committed d]\<rparr>"

definition emit :: "effect \<Rightarrow> world \<Rightarrow> world" where
  "emit e w = w\<lparr>trace := trace w @ [e]\<rparr>"

definition smtp_sessions :: "effect list \<Rightarrow> (email_message \<times> bool) list" where
  "smtp_sessions t =
     concat (map (\<lambda>e. case e of SmtpSession m ok \<Rightarrow> [(m, ok)] | _ \<Rightarrow> []) t)"

definition truthy :: "str option \<Rightarrow> bool" where
  "truthy v = (case v of None \<Rightarrow> False | Some s \<Rightarrow> s \<noteq> [])"

section \<open>The notification sender (app.py, lines 136-154)\<close>

definition send_email ::
  "environ \<Rightarrow> str \<Rightarrow> str \<Rightarrow> str \<Rightarrow> world \<Rightarrow> (error + bool) \<times> world" where
  "send_email env to_email subject body w =
     (case smtp_port env of
        None \<Rightarrow> (Inl ValueError, w)
      | Some port \<Rightarrow>
          (let host = smtp_host env;
               user = smtp_username env;
               pwd = smtp_password env;
               from_email = (case from_email_var env of None \<Rightarrow> user | Some f \<Rightarrow> Some f)
           in if \<not> (truthy host \<and> port \<noteq> 0 \<and> truthy user \<and> truthy pwd
                     \<and> truthy from_email \<and> to_email \<noteq> [])
              then (Inr False, emit (Printed (text_of ''[WARN] Email not configured; skipping send.'')) w)
              else
                (let msg = \<lparr>msg_subject = subject,
                            msg_from = (case from_email of None \<Rightarrow> [] | Some f \<Rightarrow> f),
                            msg_to = to_email,
                            msg_body = body\<rparr>
                 in if smtp_accepts env msg
                    then (Inr True, emit (SmtpSession msg True) w)
                    else (Inl SMTPException, emit (SmtpSession msg False) w))))"

section \<open>The status transition (app.py, lines 169-187)\<close>

text \<open>
  Python's \<open>round\<close> and the \<open>.0%\<close> format round to the nearest integer, ties to the
  even one. On the exact rational the model keeps, that is \<open>py_round\<close>.
\<close>

definition py_round :: "rat \<Rightarrow> int" where
  "py_round q =
     (let f = \<lfloor>q\<rfloor>; r = q - of_int f
      in if r < 1 / 2 then f
         else if 1 / 2 < r then f + 1
         else if even f then f else f + 1)"

fun show_nat :: "nat \<Rightarrow> str" where
  "show_nat n =
     (if n < 10 then [48 + int n]
      else show_nat (n div 10) @ [48 + int (n mod 10)])"

declare show_nat.simps [simp del]

definition alert_subject :: str where
  "alert_subject = (text_of ''Attendance Alert: You are below 50%'')"

definition alert_body :: "str \<Rightarrow> rat \<Rightarrow> str" where
  "alert_body name ratio =
     (text_of ''Hi '') @ name @ (text_of '','') @ [10, 10]
     @ (text_of ''Our records show your attendance is '')
     @ show_nat (nat (py_round (ratio * 100)))
     @ (text_of ''%, which is below the required 50%. Please reach out to your instructor to get back on track.'')
     @ [10, 10] @ (text_of ''Thanks.'')"

definition set_active :: "int \<Rightarrow> bool \<Rightarrow> database \<Rightarrow> database" where
  "set_active sid b d =
     d\<lparr>students := map (\<lambda>r. if s_id r = sid then r\<lparr>s_active := b\<rparr> else r) (students d)\<rparr>"

definition set_last_notified_at :: "int \<Rightarrow> nat \<Rightarrow> database \<Rightarrow> database" where
  "set_last_notified_at sid t d =
     d\<lparr>students :=
         map (\<lambda>r. if s_id r = sid then r\<lparr>s_last_notified_at := Some t\<rparr> else r) (students d)\<rparr>"

definition check_and_notify_student ::
  "environ \<Rightarrow> student \<Rightarrow> world \<Rightarrow> (error + student) \<times> world" where
  "check_and_notify_student env student w =
     (let ratio = attendance_ratio (db w) (s_id student);
          is_inactive = (ratio < DANGER_THRESHOLD)
      in if is_inactive \<and> s_active student then
           (let student1 = student\<lparr>s_active := False\<rparr>;
                w1 = commit (set_active (s_id student) False (db w)) w
            in if truthy (s_email student1) then
                 (case send_email env (case s_email student1 of None \<Rightarrow> [] | Some e \<Rightarrow> e)
                         alert_subject (alert_body (s_name student1) ratio) w1 of
                    (Inl e, w2) \<Rightarrow> (Inl e, w2)
                  | (Inr sent, w2) \<Rightarrow>
                      (Inr (student1\<lparr>s_last_notified_at := Some (utcnow env)\<rparr>),
                       commit (set_last_notified_at (s_id student) (utcnow env) (db w2)) w2))
               else (Inr student1, w1))
         else if \<not> is_inactive \<and> \<not> s_active student then
           (Inr (student\<lparr>s_active := True\<rparr>),
            commit (set_active (s_id student) True (db w)) w)
         else (Inr student, w))"

section \<open>Requests and responses\<close>

text \<open>
  A request carries the form or query fields the handlers read (\<open>None\<close> for a field that is
  absent; \<open>r_session_id\<close> is already read with \<open>type=int\<close>), whether the method is POST,
  and whether the signed browser session holds a true \<open>is_admin\<close>. A redirect carries the
  endpoint and the flashed message.
\<close>

record request =
  r_post :: bool
  r_session_id :: "int option"
  r_name :: "str option"
  r_email :: "str option"
  r_code :: "str option"
  r_class_date :: "str option"
  r_is_admin :: bool

datatype response =
    Redirect str "str option"
  | Forbidden
  | Page str
  | Csv "str list list"

definition or_empty :: "str option \<Rightarrow> str" where
  "or_empty v = (case v of None \<Rightarrow> [] | Some s \<Rightarrow> s)"

definition getenv_default :: "str option \<Rightarrow> str \<Rightarrow> str" where
  "getenv_default v dflt = (case v of None \<Rightarrow> dflt | Some s \<Rightarrow> s)"

section \<open>Inserts, updates and the constraints they can violate\<close>

text \<open>
  A new row gets the next integer key. A statement that would break a unique constraint,
  a NOT NULL column or an enforced foreign key raises \<open>IntegrityError\<close> and leaves the
  committed database as it was. Unique columns compare non-null values only: two NULL
  emails never collide.
\<close>

definition fresh_id :: "int list \<Rightarrow> int" where
  "fresh_id ids = fold max ids 0 + 1"

definition name_taken :: "database \<Rightarrow> int option \<Rightarrow> str \<Rightarrow> bool" where
  "name_taken d except name =
     list_ex (\<lambda>r. Some (s_id r) \<noteq> except \<and> s_name r = name) (students d)"

definition email_taken :: "database \<Rightarrow> int option \<Rightarrow> str option \<Rightarrow> bool" where
  "email_taken d except email =
     (case email of
        None \<Rightarrow> False
      | Some e \<Rightarrow> list_ex (\<lambda>r. Some (s_id r) \<noteq> except \<and> s_email r = Some e) (students d))"

definition set_email :: "int \<Rightarrow> str option \<Rightarrow> database \<Rightarrow> database" where
  "set_email sid e d =
     d\<lparr>students := map (\<lambda>r. if s_id r = sid then r\<lparr>s_email := e\<rparr> else r) (students d)\<rparr>"

definition set_name_email :: "int \<Rightarrow> str \<Rightarrow> str option \<Rightarrow> database \<Rightarrow> database" where
  "set_name_email sid n e d =
     d\<lparr>students :=
         map (\<lambda>r. if s_id r = sid then r\<lparr>s_name := n, s_email := e\<rparr> else r) (students d)\<rparr>"

section \<open>Today's session and the check-in page (app.py, lines 126-133 and 220-227)\<close>

definition get_or_create_today_session :: "environ \<Rightarrow> world \<Rightarrow> class_session \<times> world" where
  "get_or_create_today_session env w =
     (let d = db w
      in case find (\<lambda>s. class_date s = today env) (sessions d) of
           Some sess \<Rightarrow> (sess, w)
         | None \<Rightarrow>
             (let sess = \<lparr>cs_id = fresh_id (map cs_id (sessions d)), class_date = today env\<rparr>
              in (sess, commit (d\<lparr>sessions := sessions d @ [sess]\<rparr>) w)))"

definition get_session_or_404 :: "database \<Rightarrow> int \<Rightarrow> error + class_session" where
  "get_session_or_404 d i =
     (case find (\<lambda>s. cs_id s = i) (sessions d) of None \<Rightarrow> Inl NotFound | Some s \<Rightarrow> Inr s)"

definition get_student_or_404 :: "database \<Rightarrow> int \<Rightarrow> error + student" where
  "get_student_or_404 d i =
     (case find (\<lambda>s. s_id s = i) (students d) of None \<Rightarrow> Inl NotFound | Some s \<Rightarrow> Inr s)"

definition falsy_id :: "int option \<Rightarrow> bool" where
  "falsy_id v = (case v of None \<Rightarrow> True | Some i \<Rightarrow> i = 0)"

definition checkin :: "environ \<Rightarrow> request \<Rightarrow> world \<Rightarrow> (error + response) \<times> world" where
  "checkin env req w =
     (let (session_id, w1) =
            (if falsy_id (r_session_id req)
             then (let (sess, w') = get_or_create_today_session env w in (cs_id sess, w'))
             else (case r_session_id req of None \<Rightarrow> 0 | Some i \<Rightarrow> i, w))
      in case get_session_or_404 (db w1) session_id of
           Inl e \<Rightarrow> (Inl e, w1)
         | Inr sess \<Rightarrow> (Inr (Page (text_of ''checkin.html'')), w1))"

section \<open>The check-in submission (app.py, lines 229-259)\<close>

text \<open>
  Line 238: \<open>Student.query.filter(func.lower(Student.name)==name.lower()).first()\<close>. The
  stored name is lower-cased by the database, the submitted one by Python.
\<close>

definition find_student_by_name :: "environ \<Rightarrow> database \<Rightarrow> str \<Rightarrow> student option" where
  "find_student_by_name env d name =
     find (\<lambda>r. sql_lower env (s_name r) = py_lower env name) (students d)"

text \<open>Lines 238-246: match the student by lower-cased name, create or backfill the email.\<close>

definition resolve_student ::
  "environ \<Rightarrow> str \<Rightarrow> str \<Rightarrow> world \<Rightarrow> (error + student) \<times> world" where
  "resolve_student env name email w =
     (let d = db w
      in case find_student_by_name env d name of
           None \<Rightarrow>
             (let student = \<lparr>s_id = fresh_id (map s_id (students d)),
                             s_name = name,
                             s_email = (if email = [] then None else Some email),
                             s_active = True,
                             s_last_notified_at = None\<rparr>
              in if name_taken d None name \<or> email_taken d None (s_email student)
                 then (Inl IntegrityError, w)
                 else (Inr student, commit (d\<lparr>students := students d @ [student]\<rparr>) w))
         | Some student \<Rightarrow>
             if email \<noteq> [] \<and> \<not> truthy (s_email student) then
               (if email_taken d (Some (s_id student)) (Some email)
                then (Inl IntegrityError, w)
                else (Inr (student\<lparr>s_email := Some email\<rparr>),
                      commit (set_email (s_id student) (Some email) d) w))
             else (Inr student, w))"

text \<open>Lines 248-253: insert the attendance row unless one exists for the pair.\<close>

definition existing_attendance :: "database \<Rightarrow> int \<Rightarrow> int option \<Rightarrow> attendance option" where
  "existing_attendance d sid session_id =
     find (\<lambda>a. a_student_id a = sid \<and> Some (a_session_id a) = session_id) (attendances d)"

definition mark_attendance ::
  "environ \<Rightarrow> student \<Rightarrow> int option \<Rightarrow> world \<Rightarrow> (error + unit) \<times> world" where
  "mark_attendance env student session_id w =
     (let d = db w
      in case existing_attendance d (s_id student) session_id of
           Some row \<Rightarrow> (Inr (), w)
         | None \<Rightarrow>
             (case session_id of
                None \<Rightarrow> (Inl IntegrityError, w)
              | Some sess \<Rightarrow>
                  if fk_enforced env \<and> sess \<notin> set (map cs_id (sessions d))
                  then (Inl IntegrityError, w)
                  else
                    (let att = \<lparr>a_id = fresh_id (map a_id (attendances d)),
                                a_student_id = s_id student,
                                a_session_id = sess,
                                a_present = True,
                                a_timestamp = utcnow env\<rparr>
                     in (Inr (), commit (d\<lparr>attendances := attendances d @ [att]\<rparr>) w))))"

definition checked_in :: response where
  "checked_in = Redirect (text_of ''checkin'') (Some (text_of ''Checked in! Have a great class.''))"

definition submit_checkin :: "environ \<Rightarrow> request \<Rightarrow> world \<Rightarrow> (error + response) \<times> world" where
  "submit_checkin env req w =
     (let session_id = r_session_id req;
          name = strip (or_empty (r_name req));
          email = strip (or_empty (r_email req))
      in if name = [] then (Inr (Redirect (text_of ''checkin'') (Some (text_of ''Please enter your name.''))), w)
         else
           (case resolve_student env name email w of
              (Inl e, w1) \<Rightarrow> (Inl e, w1)
            | (Inr student, w1) \<Rightarrow>
                (case mark_attendance env student session_id w1 of
                   (Inl e, w2) \<Rightarrow> (Inl e, w2)
                 | (Inr u, w2) \<Rightarrow>
                     (case check_and_notify_student env student w2 of
                        (Inl e, w3) \<Rightarrow> (Inl e, w3)
                      | (Inr student', w3) \<Rightarrow> (Inr checked_in, w3)))))"

section \<open>Reporting (app.py, lines 262-276 and 298-330)\<close>

definition em_dash :: str where
  "em_dash = [0x2014]"

definition show_int :: "int \<Rightarrow> str" where
  "show_int i = (if i < 0 then (text_of ''-'') @ show_nat (nat (- i)) else show_nat (nat i))"

definition dashboard_present :: "database \<Rightarrow> student \<Rightarrow> int" where
  "dashboard_present d s =
     (let ratio = (if total_sessions d \<noteq> 0 then attendance_ratio d (s_id s) else 1)
      in py_round (ratio * 100))"

definition dashboard_row :: "database \<Rightarrow> student \<Rightarrow> str list" where
  "dashboard_row d s =
     [show_int (s_id s), s_name s,
      (if truthy (s_email s) then or_empty (s_email s) else em_dash),
      show_int (dashboard_present d s),
      (if s_active s then (text_of ''Active'') else (text_of ''Inactive''))]"

definition dashboard :: "database \<Rightarrow> str list list" where
  "dashboard d = map (dashboard_row d) (sort_key s_name (students d))"

text \<open>The all-students branch of the export, lines 315-326: \<open>pct\<close> and \<open>status\<close> of a row.\<close>

definition export_pct :: "database \<Rightarrow> student \<Rightarrow> int" where
  "export_pct d s =
     (let total = total_sessions d;
          present = present_count d (s_id s)
      in py_round ((of_nat present / of_nat (if total = 0 then 1 else total)) * 100))"

definition export_status :: "database \<Rightarrow> student \<Rightarrow> str" where
  "export_status d s = (if 50 \<le> export_pct d s then (text_of ''Active'') else (text_of ''Inactive''))"

definition export_row :: "database \<Rightarrow> student \<Rightarrow> str list" where
  "export_row d s =
     [s_name s, (if truthy (s_email s) then or_empty (s_email s) else []),
      show_int (export_pct d s), export_status d s,
      show_nat (present_count d (s_id s)), show_nat (total_sessions d)]"

definition roster :: "environ \<Rightarrow> database \<Rightarrow> class_session \<Rightarrow> str list list" where
  "roster env d sess =
     concat (map (\<lambda>s. map (\<lambda>a. [isoformat env (class_date sess), s_name s,
                                  (if truthy (s_email s) then or_empty (s_email s) else [])])
                        (filter (\<lambda>a. a_student_id a = s_id s \<and> a_session_id a = cs_id sess
                                      \<and> a_present a) (attendances d)))
                 (sort_key s_name (students d)))"

definition export_csv :: "environ \<Rightarrow> request \<Rightarrow> world \<Rightarrow> (error + response) \<times> world" where
  "export_csv env req w =
     (let d = db w
      in if \<not> falsy_id (r_session_id req) then
           (case get_session_or_404 d (case r_session_id req of None \<Rightarrow> 0 | Some i \<Rightarrow> i) of
              Inl e \<Rightarrow> (Inl e, w)
            | Inr sess \<Rightarrow>
                (Inr (Csv ([(text_of ''session_date''), (text_of ''name''), (text_of ''email'')] # roster env d sess)), w))
         else
           (Inr (Csv ([(text_of ''name''), (text_of ''email''), (text_of ''attendance_percent''), (text_of ''status''),
                       (text_of ''present_days''), (text_of ''total_sessions'')]
                      # map (export_row d) (sort_key s_name (students d)))), w))"

section \<open>Admin operations (app.py, lines 333-414)\<close>

definition create_session :: "environ \<Rightarrow> request \<Rightarrow> world \<Rightarrow> (error + response) \<times> world" where
  "create_session env req w =
     (if r_code req \<noteq> Some (getenv_default (admin_code env) (text_of ''letmein''))
      then (Inr Forbidden, w)
      else
        (case r_class_date req of
           None \<Rightarrow> (Inl TypeError, w)
         | Some date_str \<Rightarrow>
             (case strptime_ymd env date_str of
                None \<Rightarrow> (Inl ValueError, w)
              | Some when \<Rightarrow>
                  (let d = db w
                   in if find (\<lambda>s. class_date s = when) (sessions d) = None
                      then (Inr (Redirect (text_of ''index'') None),
                            commit (d\<lparr>sessions := sessions d
                                      @ [\<lparr>cs_id = fresh_id (map cs_id (sessions d)),
                                          class_date = when\<rparr>]\<rparr>) w)
                      else (Inr (Redirect (text_of ''index'') None), w)))))"

definition clear_students :: "environ \<Rightarrow> request \<Rightarrow> world \<Rightarrow> (error + response) \<times> world" where
  "clear_students env req w =
     (if or_empty (r_code req) \<noteq> getenv_default (admin_code env) (text_of ''letmein'')
      then (Inr Forbidden, w)
      else (Inr (Redirect (text_of ''dashboard'')
                   (Some (text_of ''All students and their attendance have been deleted.''))),
            commit ((db w)\<lparr>attendances := [], students := []\<rparr>) w))"

definition admin_login :: "environ \<Rightarrow> request \<Rightarrow> response \<times> bool" where
  "admin_login env req =
     (if r_post req then
        (let code = strip (or_empty (r_code req))
         in if code = getenv_default (admin_code env) (text_of ''letmein'')
            then (Redirect (text_of ''dashboard'') (Some (text_of ''Admin mode enabled.'')), True)
            else (Page (text_of ''admin_login.html''), r_is_admin req))
      else (Page (text_of ''admin_login.html''), r_is_admin req))"

definition admin_logout :: "request \<Rightarrow> response \<times> bool" where
  "admin_logout req = (Redirect (text_of ''dashboard'') (Some (text_of ''Admin mode disabled.'')), False)"

definition require_admin :: "request \<Rightarrow> bool" where
  "require_admin req = r_is_admin req"

definition delete_student :: "int \<Rightarrow> request \<Rightarrow> world \<Rightarrow> (error + response) \<times> world" where
  "delete_student student_id req w =
     (if \<not> require_admin req then (Inr Forbidden, w)
      else
        (case get_student_or_404 (db w) student_id of
           Inl e \<Rightarrow> (Inl e, w)
         | Inr s \<Rightarrow>
             (Inr (Redirect (text_of ''dashboard'') (Some ((text_of ''Deleted '') @ s_name s @ (text_of ''.'')))),
              commit ((db w)\<lparr>attendances :=
                                filter (\<lambda>a. a_student_id a \<noteq> s_id s) (attendances (db w)),
                              students :=
                                filter (\<lambda>r. s_id r \<noteq> s_id s) (students (db w))\<rparr>) w)))"

definition edit_student :: "int \<Rightarrow> request \<Rightarrow> world \<Rightarrow> (error + response) \<times> world" where
  "edit_student student_id req w =
     (if \<not> require_admin req then (Inr Forbidden, w)
      else
        (case get_student_or_404 (db w) student_id of
           Inl e \<Rightarrow> (Inl e, w)
         | Inr s \<Rightarrow>
             if r_post req then
               (let new_name = strip (or_empty (r_name req));
                    new_email = (let e = strip (or_empty (r_email req))
                                 in if e = [] then None else Some e)
                in if new_name = []
                   then (Inr (Redirect (text_of ''edit_student'') (Some (text_of ''Name is required.''))), w)
                   else if name_taken (db w) (Some (s_id s)) new_name
                           \<or> email_taken (db w) (Some (s_id s)) new_email
                   then (Inr (Redirect (text_of ''edit_student'')
                                (Some (text_of ''Name or email already exists. Choose a different one.''))),
                         w)
                   else (Inr (Redirect (text_of ''dashboard'') (Some (text_of ''Student updated.''))),
                         commit (set_name_email (s_id s) new_name new_email (db w)) w))
             else (Inr (Page (text_of ''edit_student.html'')), w)))"


section \<open>Predicates of the properties\<close>

text \<open>
  Two databases with the same attendance and session rows and the same student
  identities (id, name and email, row by row).
\<close>

definition same_identities :: "database \<Rightarrow> database \<Rightarrow> bool" where
  "same_identities d d' =
     (attendances d' = attendances d \<and> sessions d' = sessions d
      \<and> map (\<lambda>r. (s_id r, s_name r, s_email r)) (students d')
          = map (\<lambda>r. (s_id r, s_name r, s_email r)) (students d))"

text \<open>No student row stores the empty str as its email.\<close>

definition no_empty_email :: "database \<Rightarrow> bool" where
  "no_empty_email d = (Some [] \<notin> set (map s_email (students d)))"

text \<open>
  A later submission of \<open>name\<close> cannot reach another student than \<open>sid\<close>: either the
  lookup returns that student, or it misses while the stored name blocks a new insert.
\<close>

definition lookup_settled :: "environ \<Rightarrow> database \<Rightarrow> str \<Rightarrow> int \<Rightarrow> bool" where
  "lookup_settled env d name sid =
     (case find_student_by_name env d name of
        Some r \<Rightarrow> s_id r = sid
      | None \<Rightarrow> name_taken d None name)"

text \<open>The attendance rows of one (student, session) pair.\<close>

definition pair_rows :: "database \<Rightarrow> int \<Rightarrow> int option \<Rightarrow> attendance list" where
  "pair_rows d sid session_id =
     filter (\<lambda>a. a_student_id a = sid \<and> Some (a_session_id a) = session_id) (attendances d)"

section \<open>Example states\<close>

definition sam :: student where
  "sam = \<lparr>s_id = 1, s_name = (text_of ''Sam''), s_email = Some (text_of ''sam@example.org''),
          s_active = True, s_last_notified_at = None\<rparr>"

definition sam_row :: "int \<Rightarrow> attendance" where
  "sam_row k = \<lparr>a_id = k, a_student_id = 1, a_session_id = k, a_present = True,
                a_timestamp = 5\<rparr>"

definition three_sessions :: "class_session list" where
  "three_sessions = [\<lparr>cs_id = 1, class_date = 10\<rparr>, \<lparr>cs_id = 2, class_date = 11\<rparr>,
                     \<lparr>cs_id = 3, class_date = 12\<rparr>]"

definition world_of :: "database \<Rightarrow> world" where
  "world_of d = \<lparr>db = d, trace = []\<rparr>"

text \<open>Sam attended one of three sessions and is stored as active.\<close>

definition sam_one_of_three :: database where
  "sam_one_of_three = \<lparr>students = [sam], sessions = three_sessions, attendances = [sam_row 1]\<rparr>"

text \<open>Sam attended one of two sessions and is stored as inactive.\<close>

definition sam_one_of_two :: database where
  "sam_one_of_two = \<lparr>students = [sam\<lparr>s_active := False\<rparr>], sessions = take 2 three_sessions,
                      attendances = [sam_row 1]\<rparr>"

text \<open>
  SQLite's built-in \<open>lower()\<close> folds the letters A to Z and nothing else. Python's
  \<open>str.lower()\<close> also folds the other upper-case letters; \<open>python_lower_latin1\<close> is that
  function on text whose code points are below 256 (A to Z, and U+00C0 to U+00DE without
  the multiplication sign), which is all the examples use.
\<close>

definition sqlite_lower :: "str \<Rightarrow> str" where
  "sqlite_lower s = map (\<lambda>c. if 0x41 \<le> c \<and> c \<le> 0x5A then c + 32 else c) s"

definition python_lower_latin1 :: "str \<Rightarrow> str" where
  "python_lower_latin1 s =
     map (\<lambda>c. if (0x41 \<le> c \<and> c \<le> 0x5A) \<or> (0xC0 \<le> c \<and> c \<le> 0xDE \<and> c \<noteq> 0xD7)
              then c + 32 else c) s"

text \<open>A default deployment: SQLite, no foreign-key enforcement, no SMTP settings.\<close>

definition env_unconfigured :: environ where
  "env_unconfigured = \<lparr>admin_code = None, smtp_host = None, smtp_port = Some 587,
     smtp_username = None, smtp_password = None, from_email_var = None,
     smtp_accepts = (\<lambda>m. True), fk_enforced = False, utcnow = 100, today = 12,
     strptime_ymd = (\<lambda>s. if s = text_of ''2025-01-01'' then Some 20089 else None),
     isoformat = (\<lambda>n. []),
     sql_lower = sqlite_lower, py_lower = python_lower_latin1\<rparr>"

definition env_smtp :: "bool \<Rightarrow> environ" where
  "env_smtp up = env_unconfigured\<lparr>smtp_host := Some (text_of ''mail.example.org''),
     smtp_username := Some (text_of ''robot''), smtp_password := Some (text_of ''secret''),
     smtp_accepts := (\<lambda>m. up)\<rparr>"

definition admin_request :: "str option \<Rightarrow> bool \<Rightarrow> request" where
  "admin_request code flag =
     \<lparr>r_post = True, r_session_id = None, r_name = Some (text_of ''Sam Lee''), r_email = Some [],
      r_code = code, r_class_date = Some (text_of ''2025-01-01''), r_is_admin = flag\<rparr>"

definition alex :: student where
  "alex = \<lparr>s_id = 1, s_name = (text_of ''Alex''), s_email = None, s_active = True,
           s_last_notified_at = None\<rparr>"

definition no_rows :: database where
  "no_rows = \<lparr>students = [], sessions = [], attendances = []\<rparr>"

definition checkin_request :: "int option \<Rightarrow> str \<Rightarrow> str \<Rightarrow> request" where
  "checkin_request session_id name email =
     \<lparr>r_post = True, r_session_id = session_id, r_name = Some name, r_email = Some email,
      r_code = None, r_class_date = None, r_is_admin = False\<rparr>"

definition export_request :: request where
  "export_request = \<lparr>r_post = False, r_session_id = None, r_name = None, r_email = None,
      r_code = None, r_class_date = None, r_is_admin = False\<rparr>"

text \<open>A new name, and an email of white space only (a space, U+3000, U+00A0).\<close>

definition bo_blank :: request where
  "bo_blank = checkin_request (Some 1) (text_of ''  Bo '') [0x20, 0x3000, 0xA0]"

definition alex_and_sam :: database where
  "alex_and_sam = \<lparr>students = [alex, sam\<lparr>s_id := 2\<rparr>], sessions = take 1 three_sessions,
                    attendances = []\<rparr>"

definition edit_blank :: request where
  "edit_blank = \<lparr>r_post = True, r_session_id = None, r_name = Some (text_of ''Sam Lee''),
                 r_email = Some [0x3000, 0x20], r_code = None, r_class_date = None,
                 r_is_admin = True\<rparr>"

text \<open>The name \<open>Elan\<close> with an acute accent on its capital E (U+00C9).\<close>

definition elan :: str where
  "elan = 0xC9 # text_of ''lan''"

definition one_session :: database where
  "one_session = \<lparr>students = [], sessions = take 1 three_sessions, attendances = []\<rparr>"

text \<open>Sam attended one of three sessions and also has a row marked absent.\<close>

definition sam_with_absence :: database where
  "sam_with_absence =
     sam_one_of_three\<lparr>attendances := [sam_row 1, (sam_row 2)\<lparr>a_present := False\<rparr>]\<rparr>"

lemma text_of_eq_iff [simp]: "text_of a = text_of b \<longleftrightarrow> a = b"
  unfolding text_of_def by (rule inj_map_eq_map) (simp add: inj_on_def)

lemma text_of_Nil_iff [simp]: "text_of a = [] \<longleftrightarrow> a = []"
  by (simp add: text_of_def)

lemma Nil_text_of_iff [simp]: "[] = text_of a \<longleftrightarrow> a = []"
  by (auto simp: text_of_def)

lemmas ex_defs = sam_def sam_row_def three_sessions_def world_of_def sam_one_of_three_def
  sam_one_of_two_def env_unconfigured_def env_smtp_def
lemmas ratio_defs = attendance_ratio_def total_sessions_def present_count_def

section \<open>Properties of the ratio calculator\<close>

lemma present_rows_distinct_sessions:
  assumes u: "attendance_unique d"
  shows "distinct (map a_session_id
           (filter (\<lambda>a. a_student_id a = sid \<and> a_present a) (attendances d)))"
proof -
  let ?rows = "filter (\<lambda>a. a_student_id a = sid \<and> a_present a) (attendances d)"
  have "distinct (map (\<lambda>a. (a_student_id a, a_session_id a)) ?rows)"
    using u unfolding attendance_unique_def by (rule distinct_map_filter)
  then have "distinct ?rows"
    and inj: "inj_on (\<lambda>a. (a_student_id a, a_session_id a)) (set ?rows)"
    by (simp_all only: distinct_map)
  moreover have "inj_on a_session_id (set ?rows)"
    using inj by (auto simp: inj_on_def)
  ultimately show ?thesis
    by (simp only: distinct_map)
qed

lemma present_rows_count_sessions:
  assumes u: "attendance_unique d"
  shows "length (filter (\<lambda>a. a_student_id a = sid \<and> a_present a) (attendances d))
           = card (a_session_id ` {a \<in> set (attendances d). a_student_id a = sid \<and> a_present a})"
proof -
  let ?rows = "filter (\<lambda>a. a_student_id a = sid \<and> a_present a) (attendances d)"
  have "length ?rows = length (map a_session_id ?rows)"
    by simp
  also have "\<dots> = card (set (map a_session_id ?rows))"
    by (rule distinct_card [OF present_rows_distinct_sessions [OF u], symmetric])
  also have "set (map a_session_id ?rows)
      = a_session_id ` {a \<in> set (attendances d). a_student_id a = sid \<and> a_present a}"
    by simp
  finally show ?thesis .
qed

lemma present_rows_le_sessions:
  assumes u: "attendance_unique d" and e: "attendance_sessions_exist d"
  shows "length (filter (\<lambda>a. a_student_id a = sid \<and> a_present a) (attendances d))
           \<le> length (sessions d)"
proof -
  let ?rows = "filter (\<lambda>a. a_student_id a = sid \<and> a_present a) (attendances d)"
  have sub: "set (map a_session_id ?rows) \<subseteq> set (map cs_id (sessions d))"
    using e unfolding attendance_sessions_exist_def by (auto simp: list_all_iff)
  have "length ?rows = card (set (map a_session_id ?rows))"
    using distinct_card [OF present_rows_distinct_sessions [OF u, of sid]] by simp
  also have "\<dots> \<le> card (set (map cs_id (sessions d)))"
    by (rule card_mono [OF _ sub]) simp
  also have "\<dots> \<le> length (sessions d)"
    using card_length [of "map cs_id (sessions d)"] by simp
  finally show ?thesis .
qed

text \<open>
  C1. For every student, \<open>attendance_ratio\<close> is 1 when the session table is empty. Otherwise
  it is P / T, where T is the number of session rows and P the number of attendance rows
  whose \<open>student_id\<close> is the student's and whose \<open>present\<close> is true; a row marked absent
  does not count. When no (student, session) pair has two attendance rows, P is the number
  of distinct sessions the student was present at; when moreover every attendance row
  references an existing session, the ratio lies between 0 and 1.
\<close>

theorem attendance_ratio_spec:
  "(sessions d = [] \<longrightarrow> attendance_ratio d sid = 1)
   \<and> (sessions d \<noteq> [] \<longrightarrow>
        attendance_ratio d sid
          = of_nat (length (filter (\<lambda>a. a_student_id a = sid \<and> a_present a = True)
                              (attendances d)))
            / of_nat (length (sessions d)))
   \<and> (sessions d \<noteq> [] \<and> attendance_unique d \<longrightarrow>
        attendance_ratio d sid
          = of_nat (card (a_session_id `
                            {a \<in> set (attendances d). a_student_id a = sid \<and> a_present a = True}))
            / of_nat (length (sessions d)))
   \<and> (attendance_unique d \<and> attendance_sessions_exist d \<longrightarrow>
        0 \<le> attendance_ratio d sid \<and> attendance_ratio d sid \<le> 1)"
proof (intro conjI impI)
  show "attendance_ratio d sid = 1" if "sessions d = []"
    using that by (simp add: ratio_defs)
  show formula: "attendance_ratio d sid
          = of_nat (length (filter (\<lambda>a. a_student_id a = sid \<and> a_present a = True)
                              (attendances d)))
            / of_nat (length (sessions d))" if "sessions d \<noteq> []"
    using that by (simp add: ratio_defs)
  show "attendance_ratio d sid
          = of_nat (card (a_session_id `
                            {a \<in> set (attendances d). a_student_id a = sid \<and> a_present a = True}))
            / of_nat (length (sessions d))" if "sessions d \<noteq> [] \<and> attendance_unique d"
    using that formula present_rows_count_sessions [of d sid] by simp
  show "0 \<le> attendance_ratio d sid" if "attendance_unique d \<and> attendance_sessions_exist d"
    by (simp add: ratio_defs)
  show "attendance_ratio d sid \<le> 1" if "attendance_unique d \<and> attendance_sessions_exist d"
  proof (cases "sessions d = []")
    case True
    then show ?thesis by (simp add: ratio_defs)
  next
    case False
    have "(of_nat (length (filter (\<lambda>a. a_student_id a = sid \<and> a_present a) (attendances d)))
            :: rat) \<le> of_nat (length (sessions d))"
      using that present_rows_le_sessions [of d sid] by simp
    then show ?thesis
      using False by (simp add: ratio_defs divide_le_eq_1)
  qed
qed

theorem attendance_ratio_spec_witness:
  "sessions sam_with_absence \<noteq> []
   \<and> attendance_unique sam_with_absence \<and> attendance_sessions_exist sam_with_absence
   \<and> length (filter (\<lambda>a. a_student_id a = 1) (attendances sam_with_absence)) = 2
   \<and> length (filter (\<lambda>a. a_student_id a = 1 \<and> a_present a = True)
               (attendances sam_with_absence)) = 1
   \<and> attendance_ratio sam_with_absence 1 = 1 / 3
   \<and> 0 \<le> attendance_ratio sam_with_absence 1 \<and> attendance_ratio sam_with_absence 1 \<le> 1
   \<and> sessions (sam_with_absence\<lparr>sessions := []\<rparr>) = []
   \<and> attendance_ratio (sam_with_absence\<lparr>sessions := []\<rparr>) 1 = 1"
proof -
  have s: "sessions sam_with_absence \<noteq> []"
    and u: "attendance_unique sam_with_absence"
    and e: "attendance_sessions_exist sam_with_absence"
    and all_rows: "length (filter (\<lambda>a. a_student_id a = 1) (attendances sam_with_absence)) = 2"
    and p: "length (filter (\<lambda>a. a_student_id a = 1 \<and> a_present a = True)
                      (attendances sam_with_absence)) = 1"
    and t: "length (sessions sam_with_absence) = 3"
    by (simp_all add: sam_with_absence_def ex_defs attendance_unique_def
        attendance_sessions_exist_def)
  have z: "sessions (sam_with_absence\<lparr>sessions := []\<rparr>) = []"
    by simp
  note spec = attendance_ratio_spec [of sam_with_absence 1]
  have r: "attendance_ratio sam_with_absence 1 = 1 / 3"
    using spec [THEN conjunct2, THEN conjunct1] s p t by simp
  have b: "0 \<le> attendance_ratio sam_with_absence 1 \<and> attendance_ratio sam_with_absence 1 \<le> 1"
    using spec u e by blast
  have o: "attendance_ratio (sam_with_absence\<lparr>sessions := []\<rparr>) 1 = 1"
    using attendance_ratio_spec [of "sam_with_absence\<lparr>sessions := []\<rparr>" 1] z by blast
  show ?thesis
    using s u e all_rows p r b z o by blast
qed

section \<open>Properties of the status transition\<close>

lemma send_email_db: "db (snd (send_email env to subj body w)) = db w"
  by (simp add: send_email_def emit_def Let_def split: option.splits)

lemma send_email_trace_prefix: "prefix (trace w) (trace (snd (send_email env to subj body w)))"
  by (simp add: send_email_def emit_def Let_def split: option.splits)

lemma send_email_fst_indep:
  "fst (send_email env to subj body w) = fst (send_email env to subj body w0)"
  by (simp add: send_email_def emit_def Let_def split: option.splits)

lemma send_email_false_no_session:
  "fst (send_email env to subj body w) = Inr False \<Longrightarrow>
   smtp_sessions (trace (snd (send_email env to subj body w))) = smtp_sessions (trace w)"
  by (auto simp add: send_email_def emit_def Let_def smtp_sessions_def split: option.splits if_splits)

lemma not_below_threshold:
  assumes "\<not> attendance_ratio (db w) (s_id s) < DANGER_THRESHOLD"
  shows "check_and_notify_student env s w =
           (if s_active s then (Inr s, w)
            else (Inr (s\<lparr>s_active := True\<rparr>), commit (set_active (s_id s) True (db w)) w))"
  using assms by (simp add: check_and_notify_student_def Let_def)

text \<open>
  C2. The threshold comparison is strict. A student whose ratio is exactly one half is
  never demoted: an active student is left untouched, an inactive one gets
  \<open>active = True\<close> committed, and the transition opens no SMTP session.
\<close>

theorem ratio_half_never_demoted:
  assumes "attendance_ratio (db w) (s_id s) = 1 / 2"
  shows "check_and_notify_student env s w =
           (if s_active s then (Inr s, w)
            else (Inr (s\<lparr>s_active := True\<rparr>), commit (set_active (s_id s) True (db w)) w))
         \<and> smtp_sessions (trace (snd (check_and_notify_student env s w)))
             = smtp_sessions (trace w)"
proof -
  have nb: "\<not> attendance_ratio (db w) (s_id s) < DANGER_THRESHOLD"
    using assms by (simp add: DANGER_THRESHOLD_def)
  show ?thesis
    unfolding not_below_threshold [OF nb]
    by (simp add: commit_def smtp_sessions_def)
qed

theorem ratio_half_never_demoted_witness:
  "attendance_ratio (db (world_of sam_one_of_two)) (s_id (sam\<lparr>s_active := False\<rparr>)) = 1 / 2
   \<and> check_and_notify_student (env_smtp True) (sam\<lparr>s_active := False\<rparr>) (world_of sam_one_of_two)
       = (Inr sam,
          \<lparr>db = sam_one_of_two\<lparr>students := [sam]\<rparr>,
           trace = [Committed (sam_one_of_two\<lparr>students := [sam]\<rparr>)]\<rparr>)"
proof -
  have h: "attendance_ratio (db (world_of sam_one_of_two)) (s_id (sam\<lparr>s_active := False\<rparr>)) = 1 / 2"
    by (simp add: ex_defs ratio_defs)
  show ?thesis
    using h ratio_half_never_demoted [OF h, of "env_smtp True"]
    by (simp add: ex_defs commit_def set_active_def)
qed

lemma commit_trace: "trace (commit d w) = trace w @ [Committed d]"
  by (simp add: commit_def)

lemma commit_db: "db (commit d w) = d"
  by (simp add: commit_def)

lemma below_threshold_active:
  assumes "s_active s" and "attendance_ratio (db w) (s_id s) < 1 / 2"
  shows "check_and_notify_student env s w =
    (let w1 = commit (set_active (s_id s) False (db w)) w
     in if truthy (s_email s) then
          (case send_email env (or_empty (s_email s)) alert_subject
                  (alert_body (s_name s) (attendance_ratio (db w) (s_id s))) w1 of
             (Inl e, w2) \<Rightarrow> (Inl e, w2)
           | (Inr sent, w2) \<Rightarrow>
               (Inr (s\<lparr>s_active := False, s_last_notified_at := Some (utcnow env)\<rparr>),
                commit (set_last_notified_at (s_id s) (utcnow env) (db w2)) w2))
        else (Inr (s\<lparr>s_active := False\<rparr>), w1))"
  using assms
  by (simp add: check_and_notify_student_def DANGER_THRESHOLD_def Let_def or_empty_def)

lemma set_active_rows_inactive:
  "list_all (\<lambda>r. \<not> s_active r) (filter (\<lambda>r. s_id r = sid) (students (set_active sid False d)))"
proof -
  have "list_all (\<lambda>r. \<not> s_active r)
     (filter (\<lambda>r. s_id r = sid)
        (map (\<lambda>r. if s_id r = sid then r\<lparr>s_active := False\<rparr> else r) xs))" for xs
    by (induction xs) simp_all
  then show ?thesis
    by (simp add: set_active_def)
qed

lemma set_last_notified_rows_inactive:
  "list_all (\<lambda>r. \<not> s_active r)
     (filter (\<lambda>r. s_id r = sid) (students (set_last_notified_at sid' t (set_active sid False d))))"
proof -
  have "list_all (\<lambda>r. \<not> s_active r)
     (filter (\<lambda>r. s_id r = sid)
        (map (\<lambda>r. if s_id r = sid' then r\<lparr>s_last_notified_at := Some t\<rparr> else r)
           (map (\<lambda>r. if s_id r = sid then r\<lparr>s_active := False\<rparr> else r) xs)))" for xs
    by (induction xs) simp_all
  then show ?thesis
    by (simp add: set_active_def set_last_notified_at_def)
qed

text \<open>
  C3. When an active student's ratio is below one half, the first effect of the
  transition is the commit of \<open>active = False\<close>, before \<open>send_email\<close> is called. Whatever
  \<open>send_email\<close> then does (return false, return true or raise), every row of that student
  is inactive in the committed database at the end; when the transition ends in an
  error the committed database is exactly the one with the flag flipped.
\<close>

theorem demotion_commits_before_email:
  assumes "s_active s" and "attendance_ratio (db w) (s_id s) < 1 / 2"
  shows "prefix (trace w @ [Committed (set_active (s_id s) False (db w))])
           (trace (snd (check_and_notify_student env s w)))
       \<and> list_all (\<lambda>r. \<not> s_active r)
           (filter (\<lambda>r. s_id r = s_id s) (students (db (snd (check_and_notify_student env s w)))))
       \<and> (case fst (check_and_notify_student env s w) of
            Inl e \<Rightarrow> db (snd (check_and_notify_student env s w)) = set_active (s_id s) False (db w)
          | Inr s' \<Rightarrow> \<not> s_active s')"
proof -
  let ?w1 = "commit (set_active (s_id s) False (db w)) w"
  let ?se = "send_email env (or_empty (s_email s)) alert_subject
               (alert_body (s_name s) (attendance_ratio (db w) (s_id s))) ?w1"
  have tr1: "trace ?w1 = trace w @ [Committed (set_active (s_id s) False (db w))]"
    and db1: "db ?w1 = set_active (s_id s) False (db w)"
    by (simp_all add: commit_trace commit_db)
  obtain r w2 where se: "?se = (r, w2)" by (cases ?se)
  have db2: "db w2 = set_active (s_id s) False (db w)"
    using send_email_db [of env "or_empty (s_email s)" alert_subject
        "alert_body (s_name s) (attendance_ratio (db w) (s_id s))" ?w1] se db1 by simp
  have tr2: "prefix (trace w @ [Committed (set_active (s_id s) False (db w))]) (trace w2)"
    using send_email_trace_prefix [of ?w1 env "or_empty (s_email s)" alert_subject
        "alert_body (s_name s) (attendance_ratio (db w) (s_id s))"] se tr1 by simp
  show ?thesis
  proof (cases "truthy (s_email s)")
    case False
    have res: "check_and_notify_student env s w = (Inr (s\<lparr>s_active := False\<rparr>), ?w1)"
      unfolding below_threshold_active [OF assms] using False by (simp add: Let_def)
    show ?thesis
      unfolding res by (simp add: tr1 db1 set_active_rows_inactive)
  next
    case True
    show ?thesis
    proof (cases r)
      case (Inl e)
      have res: "check_and_notify_student env s w = (Inl e, w2)"
        unfolding below_threshold_active [OF assms] using True se Inl by (simp add: Let_def)
      show ?thesis
        unfolding res using tr2 by (simp add: db2 set_active_rows_inactive)
    next
      case (Inr sent)
      let ?d = "set_last_notified_at (s_id s) (utcnow env) (db w2)"
      have res: "check_and_notify_student env s w =
          (Inr (s\<lparr>s_active := False, s_last_notified_at := Some (utcnow env)\<rparr>), commit ?d w2)"
        unfolding below_threshold_active [OF assms] using True se Inr by (simp add: Let_def)
      have p: "prefix (trace w @ [Committed (set_active (s_id s) False (db w))])
                 (trace (commit ?d w2))"
        unfolding commit_trace by (rule prefix_prefix [OF tr2])
      show ?thesis
        unfolding res using p
        by (simp add: commit_db db2 set_last_notified_rows_inactive)
    qed
  qed
qed


theorem demotion_commits_before_email_witness:
  "s_active sam \<and> attendance_ratio (db (world_of sam_one_of_three)) (s_id sam) < 1 / 2
   \<and> fst (check_and_notify_student (env_smtp False) sam (world_of sam_one_of_three))
       = Inl SMTPException
   \<and> db (snd (check_and_notify_student (env_smtp False) sam (world_of sam_one_of_three)))
       = sam_one_of_three\<lparr>students := [sam\<lparr>s_active := False\<rparr>]\<rparr>
   \<and> prefix [Committed (sam_one_of_three\<lparr>students := [sam\<lparr>s_active := False\<rparr>]\<rparr>)]
        (trace (snd (check_and_notify_student (env_smtp False) sam (world_of sam_one_of_three))))
   \<and> fst (send_email env_unconfigured (text_of ''sam@example.org'') alert_subject [] (world_of no_rows))
       = Inr False
   \<and> list_all (\<lambda>r. \<not> s_active r)
        (filter (\<lambda>r. s_id r = s_id sam)
           (students (db (snd (check_and_notify_student env_unconfigured sam
                                 (world_of sam_one_of_three))))))
   \<and> prefix [Committed (sam_one_of_three\<lparr>students := [sam\<lparr>s_active := False\<rparr>]\<rparr>)]
        (trace (snd (check_and_notify_student env_unconfigured sam (world_of sam_one_of_three))))"
proof -
  have h1: "s_active sam" by (simp add: sam_def)
  have h2: "attendance_ratio (db (world_of sam_one_of_three)) (s_id sam) < 1 / 2"
    by (simp add: ex_defs ratio_defs)
  have r: "fst (check_and_notify_student (env_smtp False) sam (world_of sam_one_of_three))
       = Inl SMTPException"
    by (simp add: below_threshold_active [OF h1 h2] Let_def send_email_def)
       (simp add: ex_defs truthy_def or_empty_def)
  have u: "fst (send_email env_unconfigured (text_of ''sam@example.org'') alert_subject []
                  (world_of no_rows)) = Inr False"
    by (simp add: send_email_def env_unconfigured_def truthy_def)
  have flip: "set_active (s_id sam) False sam_one_of_three
                = sam_one_of_three\<lparr>students := [sam\<lparr>s_active := False\<rparr>]\<rparr>"
    by (simp add: ex_defs set_active_def)
  show ?thesis
    using h1 h2 r u demotion_commits_before_email [OF h1 h2, of "env_smtp False"]
      demotion_commits_before_email [OF h1 h2, of env_unconfigured]
    by (simp add: flip world_of_def)
qed

lemma smtp_sessions_append: "smtp_sessions (xs @ ys) = smtp_sessions xs @ smtp_sessions ys"
  by (simp add: smtp_sessions_def)

lemma smtp_sessions_commit: "smtp_sessions (trace (commit d w)) = smtp_sessions (trace w)"
  by (simp add: commit_trace smtp_sessions_append) (simp add: smtp_sessions_def)

text \<open>
  C8 (as amended). When an active student with an email on file falls below one half,
  \<open>last_notified_at\<close> is set to the current time and committed whenever \<open>send_email\<close>
  returns, with true or with false; when it returns false no SMTP session was opened, so
  a non-null \<open>last_notified_at\<close> does not mean that an email was sent. When \<open>send_email\<close>
  raises, the transition ends in that error with only the flag flipped.
\<close>

theorem last_notified_set_iff_send_email_returns:
  assumes "s_active s" and "attendance_ratio (db w) (s_id s) < 1 / 2"
    and "s_email s = Some e" and "e \<noteq> []"
  shows "case fst (send_email env e alert_subject
                     (alert_body (s_name s) (attendance_ratio (db w) (s_id s))) w) of
           Inr sent \<Rightarrow>
             fst (check_and_notify_student env s w)
               = Inr (s\<lparr>s_active := False, s_last_notified_at := Some (utcnow env)\<rparr>)
             \<and> db (snd (check_and_notify_student env s w))
               = set_last_notified_at (s_id s) (utcnow env) (set_active (s_id s) False (db w))
             \<and> (sent \<or> smtp_sessions (trace (snd (check_and_notify_student env s w)))
                         = smtp_sessions (trace w))
         | Inl err \<Rightarrow>
             fst (check_and_notify_student env s w) = Inl err
             \<and> db (snd (check_and_notify_student env s w)) = set_active (s_id s) False (db w)"
proof -
  let ?body = "alert_body (s_name s) (attendance_ratio (db w) (s_id s))"
  let ?w1 = "commit (set_active (s_id s) False (db w)) w"
  let ?se = "send_email env e alert_subject ?body ?w1"
  have tru: "truthy (s_email s)" and oe: "or_empty (s_email s) = e"
    using assms(3,4) by (simp_all add: truthy_def or_empty_def)
  obtain r w2 where se: "?se = (r, w2)" by (cases ?se)
  have r: "fst (send_email env e alert_subject ?body w) = r"
    using send_email_fst_indep [of env e alert_subject ?body w ?w1] se by simp
  have db2: "db w2 = set_active (s_id s) False (db w)"
    using send_email_db [of env e alert_subject ?body ?w1] se by (simp add: commit_db)
  show ?thesis
  proof (cases r)
    case (Inl err)
    have res: "check_and_notify_student env s w = (Inl err, w2)"
      unfolding below_threshold_active [OF assms(1,2)] using tru oe se Inl by (simp add: Let_def)
    show ?thesis
      unfolding r res using Inl db2 by simp
  next
    case (Inr sent)
    let ?d = "set_last_notified_at (s_id s) (utcnow env) (db w2)"
    have res: "check_and_notify_student env s w =
        (Inr (s\<lparr>s_active := False, s_last_notified_at := Some (utcnow env)\<rparr>), commit ?d w2)"
      unfolding below_threshold_active [OF assms(1,2)] using tru oe se Inr by (simp add: Let_def)
    have quiet: "smtp_sessions (trace (commit ?d w2)) = smtp_sessions (trace w)" if "\<not> sent"
    proof -
      from that have "fst ?se = Inr False"
        using se Inr by simp
      from send_email_false_no_session [OF this]
      show ?thesis
        using se by (simp add: smtp_sessions_commit)
    qed
    show ?thesis
      unfolding r res using Inr db2 quiet by (auto simp: commit_db)
  qed
qed

theorem last_notified_set_iff_send_email_returns_witness:
  "s_active sam \<and> attendance_ratio (db (world_of sam_one_of_three)) (s_id sam) < 1 / 2
   \<and> s_email sam = Some (text_of ''sam@example.org'') \<and> (text_of ''sam@example.org'') \<noteq> []
   \<and> fst (send_email env_unconfigured (text_of ''sam@example.org'') alert_subject
            (alert_body (s_name sam) (attendance_ratio (db (world_of sam_one_of_three)) (s_id sam)))
            (world_of sam_one_of_three)) = Inr False
   \<and> fst (check_and_notify_student env_unconfigured sam (world_of sam_one_of_three))
       = Inr (sam\<lparr>s_active := False, s_last_notified_at := Some 100\<rparr>)
   \<and> students (db (snd (check_and_notify_student env_unconfigured sam (world_of sam_one_of_three))))
       = [sam\<lparr>s_active := False, s_last_notified_at := Some 100\<rparr>]
   \<and> smtp_sessions (trace (snd (check_and_notify_student env_unconfigured sam
                                  (world_of sam_one_of_three)))) = []"
proof -
  have h1: "s_active sam" by (simp add: sam_def)
  have h2: "attendance_ratio (db (world_of sam_one_of_three)) (s_id sam) < 1 / 2"
    by (simp add: ex_defs ratio_defs)
  have h3: "s_email sam = Some (text_of ''sam@example.org'')" by (simp add: sam_def)
  have h4: "(text_of ''sam@example.org'') \<noteq> []" by simp
  have se: "fst (send_email env_unconfigured (text_of ''sam@example.org'') alert_subject
            (alert_body (s_name sam) (attendance_ratio (db (world_of sam_one_of_three)) (s_id sam)))
            (world_of sam_one_of_three)) = Inr False"
    by (simp add: send_email_def env_unconfigured_def truthy_def)
  show ?thesis
    using h1 h2 h3 se
      last_notified_set_iff_send_email_returns [OF h1 h2 h3 h4, of env_unconfigured]
    by (simp add: ex_defs set_active_def set_last_notified_at_def smtp_sessions_def)
qed

text \<open>
  The unconditional form of C8 does not hold: with the transport configured and the SMTP
  exchange failing, the student is demoted and \<open>last_notified_at\<close> stays null.
\<close>

theorem last_notified_unconditional_counterexample:
  "s_active sam \<and> s_email sam = Some (text_of ''sam@example.org'')
   \<and> attendance_ratio (db (world_of sam_one_of_three)) (s_id sam) < DANGER_THRESHOLD
   \<and> fst (check_and_notify_student (env_smtp False) sam (world_of sam_one_of_three))
       = Inl SMTPException
   \<and> students (db (snd (check_and_notify_student (env_smtp False) sam (world_of sam_one_of_three))))
       = [sam\<lparr>s_active := False\<rparr>]
   \<and> s_last_notified_at (sam\<lparr>s_active := False\<rparr>) = None"
  by code_simp

section \<open>Properties of the admin operations\<close>

lemma create_session_forbidden:
  "fst (create_session env req w) = Inr Forbidden
     \<longleftrightarrow> r_code req \<noteq> Some (getenv_default (admin_code env) (text_of ''letmein''))"
  by (simp add: create_session_def Let_def split: option.splits)

lemma clear_students_forbidden:
  "fst (clear_students env req w) = Inr Forbidden
     \<longleftrightarrow> or_empty (r_code req) \<noteq> getenv_default (admin_code env) (text_of ''letmein'')"
  by (simp add: clear_students_def)

lemma delete_student_forbidden:
  "fst (delete_student student_id req w) = Inr Forbidden \<longleftrightarrow> \<not> r_is_admin req"
  by (simp add: delete_student_def require_admin_def split: sum.splits)

lemma edit_student_forbidden:
  "fst (edit_student student_id req w) = Inr Forbidden \<longleftrightarrow> \<not> r_is_admin req"
  by (simp add: edit_student_def require_admin_def Let_def split: sum.splits)

text \<open>
  C7 (as amended). Creating a session and clearing all students are refused exactly when
  the request's \<open>code\<close> field differs from the configured admin code (default
  \<open>letmein\<close>), whatever the admin session flag says; deleting and editing one student are
  refused exactly when the admin session flag is not set, whatever code the request carries.
\<close>

theorem admin_gates:
  "(fst (create_session env req w) = Inr Forbidden
      \<longleftrightarrow> r_code req \<noteq> Some (getenv_default (admin_code env) (text_of ''letmein'')))
   \<and> (fst (clear_students env req w) = Inr Forbidden
      \<longleftrightarrow> or_empty (r_code req) \<noteq> getenv_default (admin_code env) (text_of ''letmein''))
   \<and> (fst (delete_student student_id req w) = Inr Forbidden \<longleftrightarrow> \<not> r_is_admin req)
   \<and> (fst (edit_student student_id req w) = Inr Forbidden \<longleftrightarrow> \<not> r_is_admin req)"
  using create_session_forbidden clear_students_forbidden delete_student_forbidden
    edit_student_forbidden by blast

theorem admin_gates_witness:
  "fst (create_session env_unconfigured (admin_request (Some (text_of ''letmein'')) False)
         (world_of sam_one_of_three)) \<noteq> Inr Forbidden
   \<and> fst (clear_students env_unconfigured (admin_request (Some (text_of ''letmein'')) False)
         (world_of sam_one_of_three)) \<noteq> Inr Forbidden
   \<and> fst (delete_student 1 (admin_request None True) (world_of sam_one_of_three))
        \<noteq> Inr Forbidden
   \<and> fst (edit_student 1 (admin_request None True) (world_of sam_one_of_three))
        \<noteq> Inr Forbidden"
  using admin_gates [of env_unconfigured "admin_request (Some (text_of ''letmein'')) False"
      "world_of sam_one_of_three" 1]
    admin_gates [of env_unconfigured "admin_request None True" "world_of sam_one_of_three" 1]
  by (simp add: admin_request_def env_unconfigured_def getenv_default_def or_empty_def)

text \<open>
  Neither credential works for every operation, as C7 was first stated: with the admin
  session flag set and no code, creating a session and clearing the students are
  forbidden; with the correct code and no flag, deleting and editing a student are
  forbidden.
\<close>

theorem either_credential_counterexample:
  "r_is_admin (admin_request None True)
   \<and> fst (create_session env_unconfigured (admin_request None True) (world_of sam_one_of_three))
       = Inr Forbidden
   \<and> fst (clear_students env_unconfigured (admin_request None True) (world_of sam_one_of_three))
       = Inr Forbidden
   \<and> r_code (admin_request (Some (text_of ''letmein'')) False)
       = Some (getenv_default (admin_code env_unconfigured) (text_of ''letmein''))
   \<and> fst (delete_student 1 (admin_request (Some (text_of ''letmein'')) False) (world_of sam_one_of_three))
       = Inr Forbidden
   \<and> fst (edit_student 1 (admin_request (Some (text_of ''letmein'')) False) (world_of sam_one_of_three))
       = Inr Forbidden"
  by code_simp

text \<open>
  C9. Clearing the students leaves the session table exactly as it was, and when the code
  is accepted it leaves no student row and no attendance row.
\<close>

theorem clear_students_frame:
  "sessions (db (snd (clear_students env req w))) = sessions (db w)
   \<and> (or_empty (r_code req) = getenv_default (admin_code env) (text_of ''letmein'') \<longrightarrow>
        students (db (snd (clear_students env req w))) = []
        \<and> attendances (db (snd (clear_students env req w))) = [])"
  by (simp add: clear_students_def commit_db)

theorem clear_students_frame_witness:
  "or_empty (r_code (admin_request (Some (text_of ''letmein'')) False))
     = getenv_default (admin_code env_unconfigured) (text_of ''letmein'')
   \<and> db (snd (clear_students env_unconfigured (admin_request (Some (text_of ''letmein'')) False)
               (world_of sam_one_of_three)))
     = \<lparr>students = [], sessions = three_sessions, attendances = []\<rparr>"
  using clear_students_frame [of env_unconfigured "admin_request (Some (text_of ''letmein'')) False"
      "world_of sam_one_of_three"]
  by (simp add: admin_request_def env_unconfigured_def getenv_default_def or_empty_def
      world_of_def sam_one_of_three_def)

section \<open>Properties of the CSV export\<close>

lemma export_pct_with_sessions:
  "total_sessions d \<noteq> 0 \<Longrightarrow> export_pct d s = py_round (attendance_ratio d (s_id s) * 100)"
  by (simp add: export_pct_def attendance_ratio_def Let_def)

lemma export_csv_summary_rows:
  "falsy_id (r_session_id req) \<Longrightarrow>
   export_csv env req w =
     (Inr (Csv ([(text_of ''name''), (text_of ''email''), (text_of ''attendance_percent''), (text_of ''status''), (text_of ''present_days''),
                 (text_of ''total_sessions'')]
                # map (export_row (db w)) (sort_key s_name (students (db w))))), w)"
  by (simp add: export_csv_def Let_def)

text \<open>
  C5. With at least one session the export's percentage is the rounded ratio of the ratio
  calculator (\<open>export_pct_with_sessions\<close>). With no session row the export departs from
  it: it divides by 1 instead, so a student with no attendance is exported with 0 percent
  and status Inactive, where \<open>attendance_ratio\<close> gives 1 and the dashboard shows 100.
\<close>

theorem export_zero_sessions:
  "export_csv env_unconfigured export_request (world_of (no_rows\<lparr>students := [alex]\<rparr>))
     = (Inr (Csv [[(text_of ''name''), (text_of ''email''), (text_of ''attendance_percent''), (text_of ''status''), (text_of ''present_days''),
                   (text_of ''total_sessions'')],
                  [(text_of ''Alex''), [], (text_of ''0''), (text_of ''Inactive''), (text_of ''0''), (text_of ''0'')]]),
        world_of (no_rows\<lparr>students := [alex]\<rparr>))
   \<and> attendance_ratio (no_rows\<lparr>students := [alex]\<rparr>) (s_id alex) = 1
   \<and> py_round (attendance_ratio (no_rows\<lparr>students := [alex]\<rparr>) (s_id alex) * 100) = 100
   \<and> export_pct (no_rows\<lparr>students := [alex]\<rparr>) alex = 0
   \<and> dashboard_present (no_rows\<lparr>students := [alex]\<rparr>) alex = 100"
  by code_simp

section \<open>Properties of the check-in submission\<close>

text \<open>
  C6. A submission for a session that does not exist should end in the not-found error
  with no state change. \<open>submit_checkin\<close> does not do so: it never looks the session up. With
  session id 7 and an empty database the student is created and committed; without
  enforced foreign keys an attendance row for the missing session is inserted and the
  request succeeds, with enforced foreign keys the insert raises \<open>IntegrityError\<close> after
  the student was committed. Neither outcome is the not-found error of \<open>checkin\<close>.
\<close>

theorem submit_checkin_unknown_session:
  "get_session_or_404 no_rows 7 = Inl NotFound
   \<and> submit_checkin env_unconfigured (checkin_request (Some 7) (text_of ''Alex'') []) (world_of no_rows)
     = (Inr checked_in,
        \<lparr>db = \<lparr>students = [alex], sessions = [],
                attendances = [\<lparr>a_id = 1, a_student_id = 1, a_session_id = 7, a_present = True,
                                a_timestamp = 100\<rparr>]\<rparr>,
         trace = [Committed \<lparr>students = [alex], sessions = [], attendances = []\<rparr>,
                  Committed \<lparr>students = [alex], sessions = [],
                             attendances = [\<lparr>a_id = 1, a_student_id = 1, a_session_id = 7,
                                             a_present = True, a_timestamp = 100\<rparr>]\<rparr>]\<rparr>)
   \<and> submit_checkin (env_unconfigured\<lparr>fk_enforced := True\<rparr>)
        (checkin_request (Some 7) (text_of ''Alex'') []) (world_of no_rows)
     = (Inl IntegrityError,
        \<lparr>db = \<lparr>students = [alex], sessions = [], attendances = []\<rparr>,
         trace = [Committed \<lparr>students = [alex], sessions = [], attendances = []\<rparr>]\<rparr>)"
  by code_simp

lemma map_after_update:
  "(\<And>r. g (f r) = g r) \<Longrightarrow> map g (map f xs) = map g xs"
  by (induction xs) simp_all

lemma find_after_update:
  "(\<And>r. P (f r) = P r) \<Longrightarrow> find P (map f xs) = map_option f (find P xs)"
  by (induction xs) simp_all

lemma find_Some_holds: "find P xs = Some x \<Longrightarrow> P x \<and> x \<in> set xs"
  by (induction xs) (auto split: if_splits)

lemma same_identities_refl: "same_identities d d"
  by (simp add: same_identities_def)

lemma same_identities_trans:
  "same_identities d d' \<Longrightarrow> same_identities d' d2 \<Longrightarrow> same_identities d d2"
  by (simp add: same_identities_def)

lemma same_identities_set_active: "same_identities d (set_active sid b d)"
  by (simp add: same_identities_def set_active_def map_after_update)

lemma same_identities_set_last_notified_at: "same_identities d (set_last_notified_at sid t d)"
  by (simp add: same_identities_def set_last_notified_at_def map_after_update)

lemma check_and_notify_same_identities:
  "same_identities (db w) (db (snd (check_and_notify_student env s w)))"
proof (cases "s_active s \<and> attendance_ratio (db w) (s_id s) < 1 / 2")
  case False
  then show ?thesis
    by (auto simp: check_and_notify_student_def DANGER_THRESHOLD_def Let_def commit_db
        same_identities_refl same_identities_set_active)
next
  case True
  then have a: "s_active s" and b: "attendance_ratio (db w) (s_id s) < 1 / 2"
    by simp_all
  let ?w1 = "commit (set_active (s_id s) False (db w)) w"
  let ?se = "send_email env (or_empty (s_email s)) alert_subject
               (alert_body (s_name s) (attendance_ratio (db w) (s_id s))) ?w1"
  obtain r w2 where se: "?se = (r, w2)" by (cases ?se)
  have db2: "db w2 = set_active (s_id s) False (db w)"
    using send_email_db [of env "or_empty (s_email s)" alert_subject
        "alert_body (s_name s) (attendance_ratio (db w) (s_id s))" ?w1] se
    by (simp add: commit_db)
  have two: "same_identities (db w)
      (set_last_notified_at (s_id s) (utcnow env) (set_active (s_id s) False (db w)))"
    by (rule same_identities_trans [OF same_identities_set_active
          same_identities_set_last_notified_at])
  show ?thesis
    unfolding below_threshold_active [OF a b]
    using se db2 two
    by (cases r) (simp_all add: Let_def commit_db same_identities_set_active)
qed

lemma resolve_student_frame:
  "attendances (db (snd (resolve_student env name email w))) = attendances (db w)
   \<and> sessions (db (snd (resolve_student env name email w))) = sessions (db w)"
  by (simp add: resolve_student_def Let_def commit_db set_email_def split: option.splits)

lemma resolve_student_error:
  "fst (resolve_student env name email w) = Inl e \<Longrightarrow> snd (resolve_student env name email w) = w"
  unfolding resolve_student_def Let_def
  by (cases "find_student_by_name env (db w) name") (auto split: if_splits)

lemma email_taken_None: "\<not> email_taken d except None"
  by (simp add: email_taken_def)

lemma resolve_student_blank_create:
  assumes "find_student_by_name env (db w) name = None"
  shows "resolve_student env name [] w =
     (let student = \<lparr>s_id = fresh_id (map s_id (students (db w))), s_name = name,
                     s_email = None, s_active = True, s_last_notified_at = None\<rparr>
      in if name_taken (db w) None name then (Inl IntegrityError, w)
         else (Inr student, commit ((db w)\<lparr>students := students (db w) @ [student]\<rparr>) w))"
  using assms by (simp add: resolve_student_def Let_def email_taken_None)

lemma mark_attendance_frame:
  "students (db (snd (mark_attendance env student session_id w))) = students (db w)
   \<and> sessions (db (snd (mark_attendance env student session_id w))) = sessions (db w)"
  by (simp add: mark_attendance_def Let_def commit_db split: option.splits)

lemma submit_checkin_after_resolve:
  assumes "strip (or_empty (r_name req)) \<noteq> []"
    and "resolve_student env (strip (or_empty (r_name req))) (strip (or_empty (r_email req))) w
           = (Inr student, w1)"
  shows "map (\<lambda>r. (s_id r, s_name r, s_email r)) (students (db (snd (submit_checkin env req w))))
           = map (\<lambda>r. (s_id r, s_name r, s_email r)) (students (db w1))"
proof -
  let ?ma = "mark_attendance env student (r_session_id req) w1"
  obtain r2 w2 where ma: "?ma = (r2, w2)" by (cases ?ma)
  have st2: "students (db w2) = students (db w1)"
    using mark_attendance_frame [of env student "r_session_id req" w1] ma by simp
  show ?thesis
  proof (cases r2)
    case (Inl e)
    then show ?thesis
      using assms ma st2 by (simp add: submit_checkin_def Let_def)
  next
    case (Inr u)
    let ?cn = "check_and_notify_student env student w2"
    obtain r3 w3 where cn: "?cn = (r3, w3)" by (cases ?cn)
    have "same_identities (db w2) (db w3)"
      using check_and_notify_same_identities [of w2 env student] cn by simp
    then have "map (\<lambda>r. (s_id r, s_name r, s_email r)) (students (db w3))
        = map (\<lambda>r. (s_id r, s_name r, s_email r)) (students (db w1))"
      using st2 by (simp add: same_identities_def)
    then show ?thesis
      using assms ma Inr cn by (cases r3) (simp_all add: submit_checkin_def Let_def)
  qed
qed

lemma get_student_or_404_id: "get_student_or_404 d i = Inr s \<Longrightarrow> s_id s = i"
  by (auto simp: get_student_or_404_def split: option.splits dest: find_Some_holds)

lemma submit_checkin_blank_create:
  assumes n: "strip (or_empty (r_name req)) \<noteq> []"
    and e: "strip (or_empty (r_email req)) = []"
    and f: "find_student_by_name env (db w) (strip (or_empty (r_name req))) = None"
  shows "map s_email (students (db (snd (submit_checkin env req w))))
           = (if name_taken (db w) None (strip (or_empty (r_name req)))
              then map s_email (students (db w))
              else map s_email (students (db w)) @ [None])"
proof (cases "name_taken (db w) None (strip (or_empty (r_name req)))")
  case True
  then have "resolve_student env (strip (or_empty (r_name req)))
               (strip (or_empty (r_email req))) w = (Inl IntegrityError, w)"
    unfolding e resolve_student_blank_create [OF f] by (simp add: Let_def)
  then have "snd (submit_checkin env req w) = w"
    using n by (simp add: submit_checkin_def Let_def)
  then show ?thesis
    using True by simp
next
  case False
  let ?st = "\<lparr>s_id = fresh_id (map s_id (students (db w))),
              s_name = strip (or_empty (r_name req)),
              s_email = None, s_active = True, s_last_notified_at = None\<rparr>"
  let ?w1 = "commit ((db w)\<lparr>students := students (db w) @ [?st]\<rparr>) w"
  have rs: "resolve_student env (strip (or_empty (r_name req)))
              (strip (or_empty (r_email req))) w = (Inr ?st, ?w1)"
    unfolding e resolve_student_blank_create [OF f] using False by (simp add: Let_def)
  have "map (\<lambda>r. (s_id r, s_name r, s_email r)) (students (db (snd (submit_checkin env req w))))
          = map (\<lambda>r. (s_id r, s_name r, s_email r)) (students (db ?w1))"
    by (rule submit_checkin_after_resolve [OF n rs])
  then have "map (\<lambda>p. snd (snd p))
        (map (\<lambda>r. (s_id r, s_name r, s_email r)) (students (db (snd (submit_checkin env req w)))))
      = map (\<lambda>p. snd (snd p)) (map (\<lambda>r. (s_id r, s_name r, s_email r)) (students (db ?w1)))"
    by (rule arg_cong)
  then show ?thesis
    using False by (simp add: comp_def commit_db)
qed

lemma edit_student_blank:
  assumes "r_is_admin req" and "r_post req"
    and "strip (or_empty (r_name req)) \<noteq> []" and "strip (or_empty (r_email req)) = []"
    and g: "get_student_or_404 (db w) student_id = Inr s"
    and "\<not> name_taken (db w) (Some student_id) (strip (or_empty (r_name req)))"
  shows "edit_student student_id req w
     = (Inr (Redirect (text_of ''dashboard'') (Some (text_of ''Student updated.''))),
        commit (set_name_email student_id (strip (or_empty (r_name req))) None (db w)) w)"
  using assms get_student_or_404_id [OF g]
  by (simp add: edit_student_def require_admin_def Let_def email_taken_None)

lemma set_name_email_emails:
  "map s_email (students (set_name_email sid n e d))
     = map (\<lambda>r. if s_id r = sid then e else s_email r) (students d)"
  by (simp add: set_name_email_def comp_def if_distrib cong: if_cong)


lemma set_email_emails:
  "map s_email (students (set_email sid e d))
     = map (\<lambda>r. if s_id r = sid then e else s_email r) (students d)"
  by (simp add: set_email_def comp_def if_distrib cong: if_cong)

lemma updated_emails_nonempty:
  "Some [] \<notin> set (map s_email xs) \<Longrightarrow> e \<noteq> Some [] \<Longrightarrow>
   Some [] \<notin> set (map (\<lambda>r. if s_id r = sid then e else s_email r) xs)"
  by (induction xs) auto

lemma resolve_student_no_empty_email:
  assumes "no_empty_email (db w)"
  shows "no_empty_email (db (snd (resolve_student env name email w)))"
proof (cases "find_student_by_name env (db w) name")
  case None
  then show ?thesis
    using assms by (simp add: resolve_student_def Let_def commit_db no_empty_email_def)
next
  case (Some student)
  show ?thesis
  proof (cases "email \<noteq> [] \<and> \<not> truthy (s_email student)
                \<and> \<not> email_taken (db w) (Some (s_id student)) (Some email)")
    case True
    then have "resolve_student env name email w
        = (Inr (student\<lparr>s_email := Some email\<rparr>),
           commit (set_email (s_id student) (Some email) (db w)) w)"
      using Some by (simp add: resolve_student_def Let_def)
    moreover have "Some [] \<notin> set (map (\<lambda>r. if s_id r = s_id student then Some email
                                             else s_email r) (students (db w)))"
      using assms True by (intro updated_emails_nonempty) (simp_all add: no_empty_email_def)
    ultimately show ?thesis
      unfolding no_empty_email_def by (simp only: snd_conv commit_db set_email_emails simp_thms)
  next
    case False
    then have "snd (resolve_student env name email w) = w"
      using Some by (auto simp: resolve_student_def Let_def)
    then show ?thesis
      using assms by simp
  qed
qed

lemma submit_checkin_emails:
  "map s_email (students (db (snd (submit_checkin env req w))))
     = (if strip (or_empty (r_name req)) = [] then map s_email (students (db w))
        else map s_email (students (db (snd (resolve_student env (strip (or_empty (r_name req)))
                                               (strip (or_empty (r_email req))) w)))))"
proof (cases "strip (or_empty (r_name req)) = []")
  case True
  then show ?thesis
    by (simp add: submit_checkin_def Let_def)
next
  case False
  let ?rs = "resolve_student env (strip (or_empty (r_name req))) (strip (or_empty (r_email req))) w"
  obtain r1 w1 where rs: "?rs = (r1, w1)" by (cases ?rs)
  show ?thesis
  proof (cases r1)
    case (Inl e)
    then show ?thesis
      using False rs by (simp add: submit_checkin_def Let_def)
  next
    case (Inr student)
    have "map (\<lambda>r. (s_id r, s_name r, s_email r)) (students (db (snd (submit_checkin env req w))))
        = map (\<lambda>r. (s_id r, s_name r, s_email r)) (students (db w1))"
      using submit_checkin_after_resolve [OF False] rs Inr by simp
    then have "map (\<lambda>p. snd (snd p))
          (map (\<lambda>r. (s_id r, s_name r, s_email r)) (students (db (snd (submit_checkin env req w)))))
        = map (\<lambda>p. snd (snd p)) (map (\<lambda>r. (s_id r, s_name r, s_email r)) (students (db w1)))"
      by (rule arg_cong)
    then show ?thesis
      using False rs by (simp add: comp_def)
  qed
qed

lemma submit_checkin_no_empty_email:
  assumes "no_empty_email (db w)"
  shows "no_empty_email (db (snd (submit_checkin env req w)))"
  using assms resolve_student_no_empty_email [OF assms]
  unfolding no_empty_email_def submit_checkin_emails by (simp split: if_splits)

lemma edit_student_no_empty_email:
  assumes "no_empty_email (db w)"
  shows "no_empty_email (db (snd (edit_student student_id req w)))"
proof (cases "get_student_or_404 (db w) student_id")
  case (Inl e)
  then show ?thesis
    using assms by (simp add: edit_student_def)
next
  case (Inr s)
  define new_email where
    "new_email = (if strip (or_empty (r_email req)) = [] then None
                  else Some (strip (or_empty (r_email req))))"
  have ne: "new_email \<noteq> Some []"
    by (simp add: new_email_def)
  have upd: "Some [] \<notin> set (map (\<lambda>r. if s_id r = s_id s then new_email else s_email r)
                                 (students (db w)))"
    using assms ne by (intro updated_emails_nonempty) (simp_all add: no_empty_email_def)
  have "snd (edit_student student_id req w) = w
      \<or> snd (edit_student student_id req w)
          = commit (set_name_email (s_id s) (strip (or_empty (r_name req))) new_email (db w)) w"
    using Inr by (simp add: edit_student_def Let_def new_email_def)
  then show ?thesis
  proof
    assume "snd (edit_student student_id req w) = w"
    then show ?thesis using assms by simp
  next
    assume "snd (edit_student student_id req w)
          = commit (set_name_email (s_id s) (strip (or_empty (r_name req))) new_email (db w)) w"
    then show ?thesis
      using upd unfolding no_empty_email_def by (simp only: commit_db set_name_email_emails simp_thms)
  qed
qed

text \<open>
  C10. A blank email (empty after trimming, white space being what \<open>str.strip\<close> removes)
  is stored as NULL. On the check-in create path, when the lookup finds no student, a
  blank email never blocks the insert: the new row is appended with a NULL email unless
  the stored name itself is already taken, and then nothing is stored. On the admin edit
  path a blank email sets the student's email to NULL and the update commits unless the
  new name is another student's. Neither path ever stores the empty string.
\<close>

theorem blank_email_stored_as_null:
  "(strip (or_empty (r_name req)) \<noteq> [] \<and> strip (or_empty (r_email req)) = []
      \<and> find_student_by_name env (db w) (strip (or_empty (r_name req))) = None
    \<longrightarrow> map s_email (students (db (snd (submit_checkin env req w))))
          = (if name_taken (db w) None (strip (or_empty (r_name req)))
             then map s_email (students (db w))
             else map s_email (students (db w)) @ [None]))
   \<and> (r_is_admin areq \<and> r_post areq
      \<and> strip (or_empty (r_name areq)) \<noteq> [] \<and> strip (or_empty (r_email areq)) = []
      \<and> get_student_or_404 (db w) student_id = Inr s
      \<and> \<not> name_taken (db w) (Some student_id) (strip (or_empty (r_name areq)))
    \<longrightarrow> fst (edit_student student_id areq w)
          = Inr (Redirect (text_of ''dashboard'') (Some (text_of ''Student updated.'')))
        \<and> map s_email (students (db (snd (edit_student student_id areq w))))
          = map (\<lambda>r. if s_id r = student_id then None else s_email r) (students (db w)))
   \<and> (no_empty_email (db w)
    \<longrightarrow> no_empty_email (db (snd (submit_checkin env req w)))
        \<and> no_empty_email (db (snd (edit_student student_id areq w))))"
proof (intro conjI impI)
  assume "strip (or_empty (r_name req)) \<noteq> [] \<and> strip (or_empty (r_email req)) = []
      \<and> find_student_by_name env (db w) (strip (or_empty (r_name req))) = None"
  then show "map s_email (students (db (snd (submit_checkin env req w))))
          = (if name_taken (db w) None (strip (or_empty (r_name req)))
             then map s_email (students (db w))
             else map s_email (students (db w)) @ [None])"
    using submit_checkin_blank_create by blast
qed (simp_all add: edit_student_blank commit_db set_name_email_emails
      submit_checkin_no_empty_email edit_student_no_empty_email)

theorem blank_email_stored_as_null_witness:
  "strip (or_empty (r_name bo_blank)) = text_of ''Bo''
   \<and> or_empty (r_email bo_blank) = [0x20, 0x3000, 0xA0]
   \<and> strip (or_empty (r_email bo_blank)) = []
   \<and> find_student_by_name env_unconfigured (db (world_of alex_and_sam)) (text_of ''Bo'') = None
   \<and> \<not> name_taken (db (world_of alex_and_sam)) None (text_of ''Bo'')
   \<and> map s_email (students (db (snd (submit_checkin env_unconfigured bo_blank
                                         (world_of alex_and_sam)))))
       = [None, Some (text_of ''sam@example.org''), None]
   \<and> r_is_admin edit_blank \<and> r_post edit_blank
   \<and> strip (or_empty (r_name edit_blank)) = text_of ''Sam Lee''
   \<and> strip (or_empty (r_email edit_blank)) = []
   \<and> get_student_or_404 (db (world_of alex_and_sam)) 2 = Inr (sam\<lparr>s_id := 2\<rparr>)
   \<and> \<not> name_taken (db (world_of alex_and_sam)) (Some 2) (text_of ''Sam Lee'')
   \<and> fst (edit_student 2 edit_blank (world_of alex_and_sam))
       = Inr (Redirect (text_of ''dashboard'') (Some (text_of ''Student updated.'')))
   \<and> map s_email (students (db (snd (edit_student 2 edit_blank (world_of alex_and_sam)))))
       = [None, None]
   \<and> no_empty_email (db (world_of alex_and_sam))
   \<and> no_empty_email (db (snd (submit_checkin env_unconfigured bo_blank (world_of alex_and_sam))))
   \<and> no_empty_email (db (snd (edit_student 2 edit_blank (world_of alex_and_sam))))"
proof -
  have n: "strip (or_empty (r_name bo_blank)) = text_of ''Bo''"
    and raw: "or_empty (r_email bo_blank) = [0x20, 0x3000, 0xA0]"
    and e: "strip (or_empty (r_email bo_blank)) = []"
    and f: "find_student_by_name env_unconfigured (db (world_of alex_and_sam)) (text_of ''Bo'')
              = None"
    and free: "\<not> name_taken (db (world_of alex_and_sam)) None (text_of ''Bo'')"
    by code_simp+
  have a: "r_is_admin edit_blank" "r_post edit_blank"
    and an: "strip (or_empty (r_name edit_blank)) = text_of ''Sam Lee''"
    and ae: "strip (or_empty (r_email edit_blank)) = []"
    and g: "get_student_or_404 (db (world_of alex_and_sam)) 2 = Inr (sam\<lparr>s_id := 2\<rparr>)"
    and nt: "\<not> name_taken (db (world_of alex_and_sam)) (Some 2) (text_of ''Sam Lee'')"
    and inv: "no_empty_email (db (world_of alex_and_sam))"
    by code_simp+
  have emails: "map s_email (students (db (world_of alex_and_sam)))
                  = [None, Some (text_of ''sam@example.org'')]"
    and upd: "map (\<lambda>r. if s_id r = 2 then None else s_email r)
                (students (db (world_of alex_and_sam))) = [None, None]"
    by code_simp+
  note inst = blank_email_stored_as_null [where req = bo_blank and w = "world_of alex_and_sam"
        and env = env_unconfigured and areq = edit_blank and student_id = 2
        and s = "sam\<lparr>s_id := 2\<rparr>"]
  have ne: "text_of ''Bo'' \<noteq> []" by simp
  have c1: "map s_email (students (db (snd (submit_checkin env_unconfigured bo_blank
                                              (world_of alex_and_sam)))))
       = [None, Some (text_of ''sam@example.org''), None]"
    using inst [THEN conjunct1] n e f free ne by (simp add: emails)
  have c2: "fst (edit_student 2 edit_blank (world_of alex_and_sam))
       = Inr (Redirect (text_of ''dashboard'') (Some (text_of ''Student updated.'')))
     \<and> map s_email (students (db (snd (edit_student 2 edit_blank (world_of alex_and_sam)))))
       = [None, None]"
    using inst [THEN conjunct2, THEN conjunct1] a an ae g nt ne by (simp add: upd)
  have c3: "no_empty_email (db (snd (submit_checkin env_unconfigured bo_blank
                                       (world_of alex_and_sam))))
     \<and> no_empty_email (db (snd (edit_student 2 edit_blank (world_of alex_and_sam))))"
    using inst [THEN conjunct2, THEN conjunct2] inv by blast
  show ?thesis
    using n raw e f free c1 a an ae g nt c2 inv c3 by blast
qed

lemma find_None_filter: "find P xs = None \<Longrightarrow> filter P xs = []"
  by (induction xs) (simp_all split: if_splits)

lemma find_Some_filter: "find P xs \<noteq> None \<Longrightarrow> 1 \<le> length (filter P xs)"
  by (induction xs) (simp_all split: if_splits)

lemma at_most_one_with_key:
  assumes "distinct (map key xs)" and "\<And>a b. P a \<Longrightarrow> P b \<Longrightarrow> key a = key b"
  shows "length (filter P xs) \<le> 1"
  using assms(1)
proof (induction xs)
  case Nil
  then show ?case by simp
next
  case (Cons a xs)
  show ?case
  proof (cases "P a")
    case False
    then show ?thesis using Cons by simp
  next
    case True
    have "filter P xs = []"
    proof (rule ccontr)
      assume "filter P xs \<noteq> []"
      then obtain b where b: "b \<in> set xs" "P b"
        by (metis filter_False)
      then have "key a = key b" using True assms(2) by blast
      then have "key a \<in> set (map key xs)" using b(1) by simp
      then show False using Cons.prems by simp
    qed
    then show ?thesis using True by simp
  qed
qed

lemma pair_rows_at_most_one:
  "attendance_unique d \<Longrightarrow> length (pair_rows d sid session_id) \<le> 1"
  unfolding attendance_unique_def pair_rows_def
  by (rule at_most_one_with_key [where key = "\<lambda>a. (a_student_id a, a_session_id a)"]) auto

lemma mark_attendance_existing:
  "existing_attendance (db w) (s_id student) session_id \<noteq> None \<Longrightarrow>
   mark_attendance env student session_id w = (Inr (), w)"
  by (auto simp: mark_attendance_def Let_def)

lemma mark_attendance_one_row:
  assumes u: "attendance_unique (db w)"
    and m: "mark_attendance env student session_id w = (Inr u', w')"
  shows "length (pair_rows (db w') (s_id student) session_id) = 1"
proof (cases "existing_attendance (db w) (s_id student) session_id")
  case (Some row)
  then have same: "w' = w"
    using m by (simp add: mark_attendance_def Let_def)
  have "1 \<le> length (pair_rows (db w) (s_id student) session_id)"
    unfolding pair_rows_def
    using Some by (intro find_Some_filter) (simp add: existing_attendance_def)
  then show ?thesis
    using pair_rows_at_most_one [OF u, of "s_id student" session_id] same by simp
next
  case None
  then have empty: "pair_rows (db w) (s_id student) session_id = []"
    unfolding pair_rows_def existing_attendance_def by (rule find_None_filter)
  from None m obtain sess where sess: "session_id = Some sess"
    by (cases session_id) (simp_all add: mark_attendance_def Let_def)
  have "attendances (db w') = attendances (db w)
          @ [\<lparr>a_id = fresh_id (map a_id (attendances (db w))), a_student_id = s_id student,
               a_session_id = sess, a_present = True, a_timestamp = utcnow env\<rparr>]"
    using None m sess
    by (auto simp: mark_attendance_def Let_def commit_db split: if_splits)
  then show ?thesis
    using empty sess by (simp add: pair_rows_def)
qed

lemma mark_attendance_error:
  "fst (mark_attendance env student session_id w) = Inl e \<Longrightarrow>
   snd (mark_attendance env student session_id w) = w"
  by (auto simp: mark_attendance_def Let_def split: option.splits if_splits)

lemma pair_rows_same_identities:
  "same_identities d d' \<Longrightarrow> pair_rows d' sid session_id = pair_rows d sid session_id"
  by (simp add: same_identities_def pair_rows_def)

lemma existing_attendance_rows:
  "existing_attendance d sid session_id \<noteq> None \<longleftrightarrow> pair_rows d sid session_id \<noteq> []"
  unfolding existing_attendance_def pair_rows_def
  by (induction "attendances d" arbitrary: d) (auto simp: find_None_iff filter_empty_conv)


lemma existing_attendance_cong:
  "attendances d' = attendances d \<Longrightarrow>
   existing_attendance d' sid session_id = existing_attendance d sid session_id"
  by (simp add: existing_attendance_def)

lemma pair_rows_cong:
  "attendances d' = attendances d \<Longrightarrow> pair_rows d' sid session_id = pair_rows d sid session_id"
  by (simp add: pair_rows_def)

lemma submit_checkin_existing:
  assumes n: "strip (or_empty (r_name req)) \<noteq> []"
    and rs: "resolve_student env (strip (or_empty (r_name req))) (strip (or_empty (r_email req))) w
               = (Inr student, w1)"
    and ex: "existing_attendance (db w1) (s_id student) (r_session_id req) \<noteq> None"
  shows "submit_checkin env req w =
           (case check_and_notify_student env student w1 of
              (Inl e, w3) \<Rightarrow> (Inl e, w3)
            | (Inr s', w3) \<Rightarrow> (Inr checked_in, w3))"
    and "attendances (db (snd (submit_checkin env req w))) = attendances (db w)"
    and "same_identities (db w1) (db (snd (submit_checkin env req w)))"
proof -
  show eq: "submit_checkin env req w =
           (case check_and_notify_student env student w1 of
              (Inl e, w3) \<Rightarrow> (Inl e, w3)
            | (Inr s', w3) \<Rightarrow> (Inr checked_in, w3))"
    using n rs mark_attendance_existing [OF ex, of env]
    by (simp add: submit_checkin_def Let_def)
  obtain r3 w3 where cn: "check_and_notify_student env student w1 = (r3, w3)"
    by (cases "check_and_notify_student env student w1")
  have snd3: "snd (submit_checkin env req w) = w3"
    unfolding eq cn by (cases r3) simp_all
  show si: "same_identities (db w1) (db (snd (submit_checkin env req w)))"
    using check_and_notify_same_identities [of w1 env student] cn snd3 by simp
  have "attendances (db w1) = attendances (db w)"
    using resolve_student_frame [of env "strip (or_empty (r_name req))"
        "strip (or_empty (r_email req))" w] rs by simp
  then show "attendances (db (snd (submit_checkin env req w))) = attendances (db w)"
    using si by (simp add: same_identities_def)
qed


lemma attendance_unique_cong:
  "attendances d' = attendances d \<Longrightarrow> attendance_unique d' = attendance_unique d"
  by (simp add: attendance_unique_def)


lemma find_snoc_miss:
  "find P xs = None \<Longrightarrow> find P (xs @ [x]) = (if P x then Some x else None)"
  by (induction xs) (simp_all split: if_splits)

lemma lookup_settled_identities:
  "lookup_settled env d name sid =
     (case map_option fst
             (find (\<lambda>p. sql_lower env (fst (snd p)) = py_lower env name)
                (map (\<lambda>r. (s_id r, s_name r, s_email r)) (students d))) of
        Some i \<Rightarrow> i = sid
      | None \<Rightarrow> list_ex (\<lambda>p. fst (snd p) = name)
                  (map (\<lambda>r. (s_id r, s_name r, s_email r)) (students d)))"
proof -
  have f: "map_option s_id (find (\<lambda>r. sql_lower env (s_name r) = n) xs)
        = map_option fst (find (\<lambda>p. sql_lower env (fst (snd p)) = n)
                            (map (\<lambda>r. (s_id r, s_name r, s_email r)) xs))" for xs n
    by (induction xs) simp_all
  have t: "list_ex (\<lambda>r. Some (s_id r) \<noteq> None \<and> s_name r = name) xs
        = list_ex (\<lambda>p. fst (snd p) = name) (map (\<lambda>r. (s_id r, s_name r, s_email r)) xs)"
    for xs
    by (induction xs) simp_all
  show ?thesis
    unfolding lookup_settled_def find_student_by_name_def name_taken_def
      f [symmetric] t [symmetric]
    by (simp split: option.splits)
qed

lemma lookup_settled_same_identities:
  "same_identities d d' \<Longrightarrow> lookup_settled env d' name sid = lookup_settled env d name sid"
  unfolding lookup_settled_identities
  by (simp add: same_identities_def cong: option.case_cong)

lemma lookup_settled_students_cong:
  "students d' = students d \<Longrightarrow> lookup_settled env d' name sid = lookup_settled env d name sid"
  unfolding lookup_settled_identities by (simp cong: option.case_cong)

lemma lookup_settled_env_cong:
  "sql_lower env' = sql_lower env \<Longrightarrow> py_lower env' = py_lower env \<Longrightarrow>
   lookup_settled env' d name sid = lookup_settled env d name sid"
  unfolding lookup_settled_identities by simp

lemma resolve_student_settles:
  assumes "resolve_student env name email w = (Inr st, w1)"
  shows "lookup_settled env (db w1) name (s_id st)"
proof (cases "find_student_by_name env (db w) name")
  case None
  let ?new = "\<lparr>s_id = fresh_id (map s_id (students (db w))), s_name = name,
               s_email = (if email = [] then None else Some email), s_active = True,
               s_last_notified_at = None\<rparr>"
  from None assms have st: "st = ?new"
    and w1: "w1 = commit ((db w)\<lparr>students := students (db w) @ [?new]\<rparr>) w"
    by (auto simp: resolve_student_def Let_def split: if_splits)
  have "find (\<lambda>r. sql_lower env (s_name r) = py_lower env name) (students (db w) @ [?new])
          = (if sql_lower env (s_name ?new) = py_lower env name then Some ?new else None)"
    using None by (intro find_snoc_miss) (simp add: find_student_by_name_def)
  then show ?thesis
    unfolding st w1
    by (simp add: lookup_settled_def find_student_by_name_def commit_db name_taken_def)
next
  case (Some s0)
  show ?thesis
  proof (cases "email \<noteq> [] \<and> \<not> truthy (s_email s0)")
    case False
    then have "st = s0" and "w1 = w"
      using Some assms by (auto simp: resolve_student_def Let_def)
    then show ?thesis using Some by (simp add: lookup_settled_def)
  next
    case True
    then have st: "st = s0\<lparr>s_email := Some email\<rparr>"
      and w1: "w1 = commit (set_email (s_id s0) (Some email) (db w)) w"
      using Some assms by (auto simp: resolve_student_def Let_def split: if_splits)
    let ?f = "\<lambda>r. if s_id r = s_id s0 then r\<lparr>s_email := Some email\<rparr> else r"
    have "find (\<lambda>r. sql_lower env (s_name r) = py_lower env name) (map ?f (students (db w)))
            = map_option ?f
                (find (\<lambda>r. sql_lower env (s_name r) = py_lower env name) (students (db w)))"
      by (rule find_after_update) simp
    then show ?thesis
      unfolding st w1 using Some
      by (simp add: lookup_settled_def find_student_by_name_def commit_db set_email_def)
  qed
qed

lemma resolve_student_settled_id:
  assumes "lookup_settled env (db w) name sid"
    and "resolve_student env name email w = (Inr st, w1)"
  shows "s_id st = sid"
  using assms
  by (cases "find_student_by_name env (db w) name")
     (auto simp: lookup_settled_def resolve_student_def Let_def split: if_splits)

lemma submit_checkin_settled_repeat:
  assumes n: "strip (or_empty (r_name req)) \<noteq> []"
    and l: "lookup_settled env (db w) (strip (or_empty (r_name req))) sid"
    and ex: "existing_attendance (db w) sid (r_session_id req) \<noteq> None"
  shows "attendances (db (snd (submit_checkin env req w))) = attendances (db w)"
proof -
  let ?name = "strip (or_empty (r_name req))"
  let ?rs = "resolve_student env ?name (strip (or_empty (r_email req))) w"
  obtain r1 w1 where rs: "?rs = (r1, w1)" by (cases ?rs)
  show ?thesis
  proof (cases r1)
    case (Inl e)
    then have "w1 = w"
      using resolve_student_error [of env ?name "strip (or_empty (r_email req))" w e] rs by simp
    then have "snd (submit_checkin env req w) = w"
      using n rs Inl by (simp add: submit_checkin_def Let_def)
    then show ?thesis by simp
  next
    case (Inr st)
    have rs': "?rs = (Inr st, w1)" using rs Inr by simp
    have id: "s_id st = sid"
      by (rule resolve_student_settled_id [OF l rs'])
    have att1: "attendances (db w1) = attendances (db w)"
      using resolve_student_frame [of env ?name "strip (or_empty (r_email req))" w] rs by simp
    have ex1: "existing_attendance (db w1) (s_id st) (r_session_id req) \<noteq> None"
      using ex id existing_attendance_cong [OF att1] by simp
    show ?thesis
      by (rule submit_checkin_existing(2) [OF n rs' ex1])
  qed
qed

lemma submit_checkin_first:
  assumes u: "attendance_unique (db w)"
    and n: "strip (or_empty (r_name req)) \<noteq> []"
    and rs: "resolve_student env (strip (or_empty (r_name req)))
               (strip (or_empty (r_email req))) w = (Inr st, w1)"
    and ok: "fst (submit_checkin env req w) = Inr checked_in"
  shows "lookup_settled env (db (snd (submit_checkin env req w)))
           (strip (or_empty (r_name req))) (s_id st)
       \<and> length (pair_rows (db (snd (submit_checkin env req w))) (s_id st)
                   (r_session_id req)) = 1"
proof -
  let ?name = "strip (or_empty (r_name req))"
  let ?ma = "mark_attendance env st (r_session_id req) w1"
  obtain r2 w2 where ma: "?ma = (r2, w2)" by (cases ?ma)
  obtain u' where r2: "r2 = Inr u'"
    using ok n rs ma by (cases r2) (simp_all add: submit_checkin_def Let_def)
  obtain r3 w3 where cn: "check_and_notify_student env st w2 = (r3, w3)"
    by (cases "check_and_notify_student env st w2")
  have snd3: "snd (submit_checkin env req w) = w3"
    using n rs ma r2 cn by (cases r3) (simp_all add: submit_checkin_def Let_def)
  have att1: "attendances (db w1) = attendances (db w)"
    using resolve_student_frame [of env ?name "strip (or_empty (r_email req))" w] rs by simp
  have u1: "attendance_unique (db w1)"
    using u attendance_unique_cong [OF att1] by simp
  have one2: "length (pair_rows (db w2) (s_id st) (r_session_id req)) = 1"
    using mark_attendance_one_row [OF u1] ma r2 by simp
  have st2: "students (db w2) = students (db w1)"
    using mark_attendance_frame [of env st "r_session_id req" w1] ma by simp
  have l2: "lookup_settled env (db w2) ?name (s_id st)"
    using resolve_student_settles [OF rs] lookup_settled_students_cong [OF st2] by simp
  have si: "same_identities (db w2) (db w3)"
    using check_and_notify_same_identities [of w2 env st] cn by simp
  show ?thesis
    unfolding snd3
    using l2 one2 lookup_settled_same_identities [OF si] pair_rows_same_identities [OF si]
    by simp
qed

text \<open>
  Two check-ins leave one row. From a table without a duplicated pair, after a successful
  check-in a second submission of the same form leaves the attendance table as the first
  one left it, with exactly one row for the student of the first check-in and the session,
  whether the second submission succeeds or not.
\<close>

lemma checkin_twice_one_row:
  assumes u: "attendance_unique (db w)"
    and n: "strip (or_empty (r_name req)) \<noteq> []"
    and rs: "resolve_student env (strip (or_empty (r_name req)))
               (strip (or_empty (r_email req))) w = (Inr st, w1)"
    and ok: "fst (submit_checkin env req w) = Inr checked_in"
    and lowers: "sql_lower env' = sql_lower env" "py_lower env' = py_lower env"
  shows "attendances (db (snd (submit_checkin env' req (snd (submit_checkin env req w)))))
           = attendances (db (snd (submit_checkin env req w)))
       \<and> length (pair_rows (db (snd (submit_checkin env' req (snd (submit_checkin env req w)))))
                   (s_id st) (r_session_id req)) = 1"
proof -
  let ?w' = "snd (submit_checkin env req w)"
  from submit_checkin_first [OF u n rs ok]
  have l: "lookup_settled env (db ?w') (strip (or_empty (r_name req))) (s_id st)"
    and one: "length (pair_rows (db ?w') (s_id st) (r_session_id req)) = 1"
    by simp_all
  have l': "lookup_settled env' (db ?w') (strip (or_empty (r_name req))) (s_id st)"
    using l lookup_settled_env_cong [OF lowers] by simp
  from one have "pair_rows (db ?w') (s_id st) (r_session_id req) \<noteq> []"
    by auto
  then have ex: "existing_attendance (db ?w') (s_id st) (r_session_id req) \<noteq> None"
    by (simp only: existing_attendance_rows simp_thms)
  have att: "attendances (db (snd (submit_checkin env' req ?w'))) = attendances (db ?w')"
    by (rule submit_checkin_settled_repeat [OF n l' ex])
  show ?thesis
    using att one pair_rows_cong [OF att] by simp
qed

text \<open>
  C4. A check-in whose student is found and already has an attendance row for the session
  inserts nothing and runs the status transition (\<open>submit_checkin_existing\<close>), and two
  check-ins never leave two rows (\<open>checkin_twice_one_row\<close>). The status transition is
  not always reached on the repeated check-in, though. The lookup compares the
  database's \<open>lower()\<close> of the stored name with Python's \<open>lower()\<close> of the submitted one.
  On SQLite, a first check-in as Elan with a capital E acute creates the student and the
  attendance row; on the second one the lookup misses the row it stored, the insert of a
  second student of that name breaks the unique constraint, and the request ends in
  \<open>IntegrityError\<close> before the transition is called.
\<close>

theorem repeated_checkin_misses_student:
  "strip elan = elan
   \<and> sqlite_lower elan = elan \<and> python_lower_latin1 elan = 0xE9 # text_of ''lan''
   \<and> submit_checkin env_unconfigured (checkin_request (Some 1) elan []) (world_of one_session)
       = (Inr checked_in,
          \<lparr>db = one_session
                  \<lparr>students := [alex\<lparr>s_name := elan\<rparr>],
                   attendances := [\<lparr>a_id = 1, a_student_id = 1, a_session_id = 1,
                                    a_present = True, a_timestamp = 100\<rparr>]\<rparr>,
           trace = [Committed (one_session\<lparr>students := [alex\<lparr>s_name := elan\<rparr>]\<rparr>),
                    Committed (one_session
                      \<lparr>students := [alex\<lparr>s_name := elan\<rparr>],
                       attendances := [\<lparr>a_id = 1, a_student_id = 1, a_session_id = 1,
                                        a_present = True, a_timestamp = 100\<rparr>]\<rparr>)]\<rparr>)
   \<and> find_student_by_name env_unconfigured
         (db (snd (submit_checkin env_unconfigured (checkin_request (Some 1) elan [])
                     (world_of one_session)))) elan = None
   \<and> submit_checkin env_unconfigured (checkin_request (Some 1) elan [])
         (snd (submit_checkin env_unconfigured (checkin_request (Some 1) elan [])
                 (world_of one_session)))
       = (Inl IntegrityError,
          snd (submit_checkin env_unconfigured (checkin_request (Some 1) elan [])
                 (world_of one_session)))
   \<and> fst (check_and_notify_student env_unconfigured (alex\<lparr>s_name := elan\<rparr>)
            (snd (submit_checkin env_unconfigured (checkin_request (Some 1) elan [])
                    (world_of one_session))))
       = Inr (alex\<lparr>s_name := elan\<rparr>)"
  by code_simp

end
